theory Spec2Isabelle
  imports Complex_Main
begin

section \<open>Numeric primitives\<close>

text \<open>
  Python floats are modelled as real numbers: the arithmetic of the agents is taken
  exactly, without binary rounding error, NaN or infinities.  What the code rounds on
  purpose (\<^verbatim>\<open>round(x, ndigits)\<close>) is kept: Python rounds a tie to the even
  neighbour.
\<close>

datatype exn = ValueError | TypeError | IndexError | FitError | SolverError | DBError

definition round_half_even :: "real \<Rightarrow> int" where
  "round_half_even x =
     (let f = \<lfloor>x\<rfloor>; d = x - of_int f
      in if d < 1 / 2 then f
         else if 1 / 2 < d then f + 1
         else if even f then f else f + 1)"

definition py_round :: "real \<Rightarrow> nat \<Rightarrow> real" where
  "py_round x ndigits = of_int (round_half_even (x * 10 ^ ndigits)) / 10 ^ ndigits"

text \<open>\<^verbatim>\<open>np.mean\<close> and \<^verbatim>\<open>np.std\<close> (population standard deviation, ddof = 0).\<close>

definition np_mean :: "real list \<Rightarrow> real" where
  "np_mean xs = sum_list xs / of_nat (length xs)"

definition np_std :: "real list \<Rightarrow> real" where
  "np_std xs = sqrt (np_mean (map (\<lambda>x. (x - np_mean xs)\<^sup>2) xs))"

section \<open>Inventory agent: EOQ, safety stock, reorder point\<close>

text \<open>
  \<^verbatim>\<open>compute_eoq\<close>: \<^verbatim>\<open>math.sqrt\<close> raises ValueError on a negative argument,
  which happens for a negative setup cost.
\<close>

definition compute_eoq :: "real \<Rightarrow> real \<Rightarrow> real \<Rightarrow> exn + real" where
  "compute_eoq demand_annual setup_cost holding_cost_annual =
     (if holding_cost_annual \<le> 0 \<or> demand_annual \<le> 0 then Inr (max 1 demand_annual)
      else let q = 2 * demand_annual * setup_cost / holding_cost_annual
           in if q < 0 then Inl ValueError
              else Inr (max 1 (py_round (sqrt q) 1)))"

text \<open>
  \<^verbatim>\<open>compute_safety_stock\<close>: the normal quantile \<^verbatim>\<open>scipy.stats.norm.ppf\<close> is a
  library function and is passed in as \<open>ppf\<close>.  In the branch that takes the square root
  the lead time is positive, so the argument of \<^verbatim>\<open>math.sqrt\<close> is never negative.
\<close>

definition compute_safety_stock ::
  "(real \<Rightarrow> real) \<Rightarrow> real \<Rightarrow> real \<Rightarrow> real \<Rightarrow> real \<Rightarrow> real" where
  "compute_safety_stock ppf demand_std_per_period lead_time_periods service_level
       lead_time_std_periods =
     (let z = ppf service_level
      in if lead_time_periods \<le> 0 then 0
         else let var_demand = demand_std_per_period\<^sup>2 * lead_time_periods;
                  var_lead_time = demand_std_per_period\<^sup>2 * lead_time_std_periods\<^sup>2;
                  sigma_lt = sqrt (var_demand + var_lead_time)
              in max 0 (py_round (z * sigma_lt) 1))"

definition compute_rop :: "real \<Rightarrow> real \<Rightarrow> real \<Rightarrow> real" where
  "compute_rop demand_mean_per_period lead_time_periods safety_stock =
     (let mu_lt = demand_mean_per_period * lead_time_periods
      in max 0 (py_round (mu_lt + safety_stock) 1))"

record inventory_cost =
  ordering :: real
  holding :: real
  total :: real

definition annual_inventory_cost :: "real \<Rightarrow> real \<Rightarrow> real \<Rightarrow> real \<Rightarrow> inventory_cost" where
  "annual_inventory_cost eoq demand_annual setup_cost holding_cost_annual =
     (if eoq \<le> 0 then \<lparr>ordering = 0, holding = 0, total = 0\<rparr>
      else let ord = (demand_annual / eoq) * setup_cost;
               hold = (eoq / 2) * holding_cost_annual
           in \<lparr>ordering = py_round ord 2, holding = py_round hold 2,
               total = py_round (ord + hold) 2\<rparr>)"

section \<open>Forecast agent: error metrics\<close>

text \<open>
  \<^verbatim>\<open>actual - forecast\<close> on numpy arrays: elementwise for equal shapes, broadcast when
  one side has length one, ValueError otherwise.
\<close>

definition np_sub :: "real list \<Rightarrow> real list \<Rightarrow> exn + real list" where
  "np_sub xs ys =
     (if length xs = length ys then Inr (map (\<lambda>(x, y). x - y) (zip xs ys))
      else if length ys = 1 then Inr (map (\<lambda>x. x - hd ys) xs)
      else if length xs = 1 then Inr (map (\<lambda>y. hd xs - y) ys)
      else Inl ValueError)"

definition wape :: "real list \<Rightarrow> real list \<Rightarrow> exn + real" where
  "wape actual forecast =
     (let total_actual = sum_list (map abs actual)
      in if total_actual = 0 then Inr 0
         else case np_sub actual forecast of
                Inl e \<Rightarrow> Inl e
              | Inr diff \<Rightarrow> Inr (sum_list (map abs diff) / total_actual))"

section \<open>Persistence model\<close>

text \<open>
  The tables of \<^verbatim>\<open>backend/db/models.py\<close> with the columns the agents read or write.
  Identifiers and names are strings, timestamps are integers (seconds), nullable columns
  are options.  A table is the list of its rows in insertion order; \<^verbatim>\<open>.first()\<close>
  without an ordering takes the first row of that list.
\<close>

record product =
  p_product_id :: string
  p_sku :: string

record location =
  l_location_id :: string

record supplier =
  s_supplier_id :: string
  s_name :: string
  s_rating :: real

record supplier_offer =
  so_supplier_id :: string
  so_product_id :: string
  so_price :: real
  so_currency :: string
  so_moq :: int
  so_lead_time_days :: "int option"
  so_capacity_units :: "int option"
  so_captured_at :: "int option"
  so_source :: string
  so_confidence :: real

record demand_row =
  dh_product_id :: string
  dh_location_id :: string
  dh_date :: int
  dh_qty :: real

record cost_parameter =
  cp_product_id :: string
  cp_location_id :: string
  cp_holding_cost_per_unit_period :: real
  cp_setup_cost :: real
  cp_stockout_penalty :: "real option"
  cp_service_level :: real

record forecast_result =
  fr_run_id :: string
  fr_product_id :: string
  fr_location_id :: string
  fr_date :: int
  fr_p50 :: real
  fr_p90 :: real
  fr_model_used :: string
  fr_mape :: real
  fr_wape :: real

record inventory_policy_result =
  ir_run_id :: string
  ir_product_id :: string
  ir_location_id :: string
  ir_eoq :: real
  ir_rop :: real
  ir_safety_stock :: real
  ir_avg_demand :: real
  ir_demand_std :: real
  ir_lead_time_days :: real
  ir_service_level :: real
  ir_annual_holding_cost :: real
  ir_annual_ordering_cost :: real

record optimisation_allocation =
  oa_run_id :: string
  oa_supplier_id :: string
  oa_product_id :: string
  oa_location_id :: string
  oa_qty :: real
  oa_unit_cost :: real
  oa_ship_cost :: real
  oa_total_cost :: real

record scraper_job =
  sj_status :: string
  sj_offers_collected :: int
  sj_error :: "exn option"
  sj_completed_at :: "int option"

record forecast_run =
  fo_status :: string
  fo_model_versions :: "(string \<times> string) list"
  fo_completed_at :: "int option"

record inventory_policy_run =
  ip_status :: string
  ip_completed_at :: "int option"

record optimisation_run =
  op_status :: string
  op_total_cost :: real
  op_completed_at :: "int option"

record db =
  products :: "product list"
  locations :: "location list"
  suppliers :: "supplier list"
  supplier_offers :: "supplier_offer list"
  demand_history :: "demand_row list"
  cost_parameters :: "cost_parameter list"
  forecast_results :: "forecast_result list"
  inventory_policy_results :: "inventory_policy_result list"
  optimisation_allocations :: "optimisation_allocation list"
  scraper_jobs :: "string \<rightharpoonup> scraper_job"
  forecast_runs :: "string \<rightharpoonup> forecast_run"
  inventory_policy_runs :: "string \<rightharpoonup> inventory_policy_run"
  optimisation_runs :: "string \<rightharpoonup> optimisation_run"

text \<open>
  A SQLAlchemy session: \<open>committed\<close> is what the database holds durably, \<open>current\<close> is
  the view of the open transaction (committed rows plus everything flushed since), and
  \<open>pending\<close> are the supplier offers added with \<^verbatim>\<open>db.add\<close> and not yet flushed.
  The three counters say how often the Python clock, the database clock and the UUID
  generator have been read.  Commit and rollback themselves are taken not to fail.
\<close>

record session =
  committed :: db
  current :: db
  pending :: "supplier_offer list"
  py_ticks :: nat
  db_ticks :: nat
  uuid_ticks :: nat

text \<open>
  What the agents take from their surroundings.  \<^verbatim>\<open>backend/db/session.py\<close> is not
  part of the sources, so the session's \<open>autoflush\<close> flag is a parameter; so are the two
  clocks (\<^verbatim>\<open>datetime.utcnow()\<close> in Python, \<^verbatim>\<open>now()\<close> as the server default of
  \<^verbatim>\<open>captured_at\<close>), the UUID generator, the setting \<^verbatim>\<open>scraper_ttl_hours\<close> and the
  normal quantile of scipy.
\<close>

record env =
  autoflush :: bool
  utcnow :: "nat \<Rightarrow> int"
  dbnow :: "nat \<Rightarrow> int"
  gen_uuid :: "nat \<Rightarrow> string"
  scraper_ttl_hours :: int
  norm_ppf :: "real \<Rightarrow> real"

text \<open>
  A flush inserts the pending offers; the database gives each row its
  \<^verbatim>\<open>captured_at\<close> from its own clock.
\<close>

definition stamp :: "env \<Rightarrow> nat \<Rightarrow> supplier_offer list \<Rightarrow> supplier_offer list" where
  "stamp e j offs =
     map (\<lambda>(i, off). off\<lparr>so_captured_at := Some (dbnow e (j + i))\<rparr>) (enumerate 0 offs)"

definition flush :: "env \<Rightarrow> session \<Rightarrow> session" where
  "flush e s =
     s\<lparr>current := (current s)\<lparr>supplier_offers := supplier_offers (current s) @
            stamp e (db_ticks s) (pending s)\<rparr>,
       pending := [],
       db_ticks := db_ticks s + length (pending s)\<rparr>"

definition commit :: "env \<Rightarrow> session \<Rightarrow> session" where
  "commit e s = (let s' = flush e s in s'\<lparr>committed := current s'\<rparr>)"

definition rollback :: "session \<Rightarrow> session" where
  "rollback s = s\<lparr>current := committed s, pending := []\<rparr>"

text \<open>A query autoflushes first when the session is configured to.\<close>

definition before_query :: "env \<Rightarrow> session \<Rightarrow> session" where
  "before_query e s = (if autoflush e then flush e s else s)"

text \<open>
  The body of a \<^verbatim>\<open>for\<close> loop either raises, or skips the item (\<^verbatim>\<open>continue\<close>),
  or produces a row; the loop stops at the first exception.
\<close>

fun collect :: "('a \<Rightarrow> exn + 'b list) \<Rightarrow> 'a list \<Rightarrow> exn + 'b list" where
  "collect f [] = Inr []"
| "collect f (x # xs) =
     (case f x of
        Inl e \<Rightarrow> Inl e
      | Inr ys \<Rightarrow> (case collect f xs of Inl e \<Rightarrow> Inl e | Inr zs \<Rightarrow> Inr (ys @ zs)))"

section \<open>Inventory agent: the policy run\<close>

text \<open>\<^verbatim>\<open>.order_by(SupplierOffer.price).first()\<close>: the first row of least price.\<close>

definition cheapest :: "supplier_offer list \<Rightarrow> supplier_offer option" where
  "cheapest offers = (case sort_key so_price offers of [] \<Rightarrow> None | x # _ \<Rightarrow> Some x)"

text \<open>
  One pass of the loop over the cost parameters.  The lead time is read before the test
  for missing forecasts, and a \<^verbatim>\<open>NULL\<close> lead time makes the division raise TypeError.
\<close>

definition policy_for ::
  "env \<Rightarrow> db \<Rightarrow> string \<Rightarrow> string \<Rightarrow> int \<Rightarrow> cost_parameter \<Rightarrow> exn + inventory_policy_result list" where
  "policy_for e d run_id forecast_run_id periods_per_year cp =
     (let h_annual = cp_holding_cost_per_unit_period cp * of_int periods_per_year;
          s = cp_setup_cost cp;
          sl = cp_service_level cp;
          latest_offer = cheapest (filter (\<lambda>off. so_product_id off = cp_product_id cp)
                                          (supplier_offers d))
      in case (case latest_offer of
                 None \<Rightarrow> Inr 4
               | Some off \<Rightarrow> (case so_lead_time_days off of
                                None \<Rightarrow> Inl TypeError
                              | Some days \<Rightarrow> Inr (of_int days / 7))) of
           Inl exc \<Rightarrow> Inl exc
         | Inr lead_time_weeks \<Rightarrow>
             let forecasts = sort_key fr_date
                   (filter (\<lambda>f. fr_run_id f = forecast_run_id
                                 \<and> fr_product_id f = cp_product_id cp
                                 \<and> fr_location_id f = cp_location_id cp)
                           (forecast_results d))
             in if forecasts = [] then Inr []
                else let p50_values = map fr_p50 forecasts;
                         demand_mean = np_mean p50_values;
                         demand_std = np_std p50_values;
                         demand_annual = demand_mean * of_int periods_per_year
                     in case compute_eoq demand_annual s h_annual of
                          Inl exc \<Rightarrow> Inl exc
                        | Inr eoq \<Rightarrow>
                            let ss = compute_safety_stock (norm_ppf e) demand_std lead_time_weeks sl 0;
                                rop = compute_rop demand_mean lead_time_weeks ss;
                                costs = annual_inventory_cost eoq demand_annual s h_annual
                            in Inr [\<lparr>ir_run_id = run_id,
                                     ir_product_id = cp_product_id cp,
                                     ir_location_id = cp_location_id cp,
                                     ir_eoq = eoq,
                                     ir_rop = rop,
                                     ir_safety_stock = ss,
                                     ir_avg_demand = py_round demand_mean 2,
                                     ir_demand_std = py_round demand_std 2,
                                     ir_lead_time_days = py_round (lead_time_weeks * 7) 1,
                                     ir_service_level = sl,
                                     ir_annual_holding_cost = holding costs,
                                     ir_annual_ordering_cost = ordering costs\<rparr>])"

text \<open>The \<^verbatim>\<open>try\<close> block up to the last \<^verbatim>\<open>db.add\<close>: the rows added, or the exception.\<close>

definition inventory_try :: "env \<Rightarrow> string \<Rightarrow> string \<Rightarrow> int \<Rightarrow> db \<Rightarrow> exn + inventory_policy_result list" where
  "inventory_try e run_id forecast_run_id periods_per_year d =
     collect (policy_for e d run_id forecast_run_id periods_per_year) (cost_parameters d)"

text \<open>
  The runner around the \<^verbatim>\<open>try\<close> block: resolve the run record, commit status
  \<^verbatim>\<open>running\<close>; on success add the rows, set \<^verbatim>\<open>done\<close> and commit; on an exception
  roll back, set \<^verbatim>\<open>failed\<close>, commit and raise again.  The block is a parameter of
  \<open>inventory_stage\<close> so that the handler can be studied for every exception.
\<close>

text \<open>The two statements before the \<^verbatim>\<open>try\<close>: status \<^verbatim>\<open>running\<close>, then commit.\<close>

definition inventory_mark_running :: "env \<Rightarrow> session \<Rightarrow> string \<Rightarrow> inventory_policy_run \<Rightarrow> session" where
  "inventory_mark_running e s run_id run =
     commit e (s\<lparr>current := (current s)\<lparr>inventory_policy_runs :=
       (inventory_policy_runs (current s))(run_id \<mapsto> run\<lparr>ip_status := ''running''\<rparr>)\<rparr>\<rparr>)"

definition inventory_stage ::
  "(db \<Rightarrow> exn + inventory_policy_result list) \<Rightarrow> env \<Rightarrow> session \<Rightarrow> string
     \<Rightarrow> session \<times> (exn + inventory_policy_run)" where
  "inventory_stage body e s run_id =
     (let s0 = before_query e s
      in case inventory_policy_runs (current s0) run_id of
           None \<Rightarrow> (s0, Inl ValueError)
         | Some run \<Rightarrow>
             let running = run\<lparr>ip_status := ''running''\<rparr>;
                 s1 = inventory_mark_running e s0 run_id run
             in case body (current s1) of
                  Inr rows \<Rightarrow>
                    let finished = running\<lparr>ip_status := ''done'',
                                           ip_completed_at := Some (utcnow e (py_ticks s1))\<rparr>;
                        s2 = s1\<lparr>current := (current s1)\<lparr>
                                  inventory_policy_results := inventory_policy_results (current s1) @ rows,
                                  inventory_policy_runs :=
                                    (inventory_policy_runs (current s1))(run_id \<mapsto> finished)\<rparr>,
                                py_ticks := Suc (py_ticks s1)\<rparr>
                    in (commit e s2, Inr finished)
                | Inl exc \<Rightarrow>
                    let s2 = rollback s1;
                        failed = running\<lparr>ip_status := ''failed''\<rparr>;
                        s3 = commit e (s2\<lparr>current := (current s2)\<lparr>inventory_policy_runs :=
                               (inventory_policy_runs (current s2))(run_id \<mapsto> failed)\<rparr>\<rparr>)
                    in (s3, Inl exc))"

definition run_inventory_policy ::
  "env \<Rightarrow> session \<Rightarrow> string \<Rightarrow> string \<Rightarrow> int \<Rightarrow> session \<times> (exn + inventory_policy_run)" where
  "run_inventory_policy e s run_id forecast_run_id periods_per_year =
     inventory_stage (inventory_try e run_id forecast_run_id periods_per_year) e s run_id"

section \<open>Optimiser agent\<close>







definition load_products :: "db \<Rightarrow> string list option \<Rightarrow> product list" where
  "load_products d product_ids =
     (case product_ids of
        None \<Rightarrow> products d
      | Some ids \<Rightarrow> if ids = [] then products d
                    else filter (\<lambda>p. p_product_id p \<in> set ids) (products d))"














section \<open>Forecast agent\<close>

text \<open>
  A series is the list of its (date, value) points.  Fitting ARIMA, Prophet and
  exponential smoothing, resampling and generating dates are library calls: they are the
  fields of \<open>fitters\<close>.  \<open>arima_lib\<close> and \<open>prophet_lib\<close> give per step the predicted mean and
  the upper bound of the 80% interval; \<open>ets_lib\<close> fails in its outer result when the fit
  raises (the code then falls back to \<open>ses_lib\<close>) and in its inner result when forecasting
  raises; it gives the forecast and the in-sample residuals.
\<close>

type_synonym series = "(int \<times> real) list"

record fitters =
  resample :: "string \<Rightarrow> series \<Rightarrow> series"
  arima_lib :: "series \<Rightarrow> nat \<Rightarrow> exn + (real \<times> real) list"
  prophet_lib :: "series \<Rightarrow> nat \<Rightarrow> exn + (real \<times> real) list"
  ets_lib :: "series \<Rightarrow> nat \<Rightarrow> exn + (exn + real list \<times> real list)"
  ses_lib :: "series \<Rightarrow> nat \<Rightarrow> exn + real list \<times> real list"
  date_range :: "int \<Rightarrow> nat \<Rightarrow> string \<Rightarrow> int list"

definition VALIDATION_PERIODS :: nat where
  "VALIDATION_PERIODS = 8"

definition np_add :: "real list \<Rightarrow> real list \<Rightarrow> exn + real list" where
  "np_add xs ys =
     (if length xs = length ys then Inr (map (\<lambda>(x, y). x + y) (zip xs ys))
      else if length ys = 1 then Inr (map (\<lambda>x. x + hd ys) xs)
      else if length xs = 1 then Inr (map (\<lambda>y. hd xs + y) ys)
      else Inl ValueError)"

text \<open>A scalar times an array.\<close>

definition np_scale :: "real \<Rightarrow> real list \<Rightarrow> real list" where
  "np_scale c xs = map (\<lambda>x. c * x) xs"

text \<open>
  \<^verbatim>\<open>mape\<close>: indexing the forecast with the mask of the actuals raises IndexError when
  the lengths differ.
\<close>

definition mape :: "real list \<Rightarrow> real list \<Rightarrow> exn + real" where
  "mape actual forecast =
     (if \<forall>a \<in> set actual. a = 0 then Inr 0
      else if length forecast \<noteq> length actual then Inl IndexError
      else Inr (np_mean (map (\<lambda>(a, f). \<bar>(a - f) / a\<bar>)
                            (filter (\<lambda>(a, f). a \<noteq> 0) (zip actual forecast))) * 100))"

text \<open>\<^verbatim>\<open>pandas.Series.std\<close>: the sample standard deviation (ddof = 1).\<close>

definition pd_std :: "real list \<Rightarrow> real" where
  "pd_std xs = sqrt (sum_list (map (\<lambda>x. (x - np_mean xs)\<^sup>2) xs) / (of_nat (length xs) - 1))"

definition fit_arima :: "fitters \<Rightarrow> series \<Rightarrow> nat \<Rightarrow> exn + real list \<times> real list" where
  "fit_arima lib train horizon =
     (case arima_lib lib train horizon of
        Inl exc \<Rightarrow> Inl exc
      | Inr steps \<Rightarrow>
          Inr (map (\<lambda>(mean, upper). max 0 mean) steps,
               map (\<lambda>(mean, upper). max 0 ((upper - max 0 mean) / 1.28)) steps))"

definition fit_prophet :: "fitters \<Rightarrow> series \<Rightarrow> nat \<Rightarrow> exn + real list \<times> real list" where
  "fit_prophet lib train horizon =
     (case prophet_lib lib train horizon of
        Inl exc \<Rightarrow> Inl exc
      | Inr steps \<Rightarrow>
          Inr (map (\<lambda>(yhat, yhat_upper). max 0 yhat) steps,
               map (\<lambda>(yhat, yhat_upper). max 0 ((max 0 yhat_upper - max 0 yhat) / 1.28)) steps))"

definition fit_ets :: "fitters \<Rightarrow> series \<Rightarrow> nat \<Rightarrow> exn + real list \<times> real list" where
  "fit_ets lib train horizon =
     (case (case ets_lib lib train horizon of
              Inl exc \<Rightarrow> ses_lib lib train horizon
            | Inr m \<Rightarrow> m) of
        Inl exc \<Rightarrow> Inl exc
      | Inr (forecast, resid) \<Rightarrow>
          Inr (map (max 0) forecast, replicate horizon (np_std resid)))"

definition fit_fn :: "fitters \<Rightarrow> string \<Rightarrow> (series \<Rightarrow> nat \<Rightarrow> exn + real list \<times> real list) option" where
  "fit_fn lib model_name =
     (if model_name = ''arima'' then Some (fit_arima lib)
      else if model_name = ''prophet'' then Some (fit_prophet lib)
      else if model_name = ''ets'' then Some (fit_ets lib)
      else None)"

text \<open>\<^verbatim>\<open>min(results, key=...)\<close>: the first entry of least WAPE.\<close>

fun argmin_first :: "(string \<times> real \<times> real list \<times> real list) list
    \<Rightarrow> string \<times> real \<times> real list \<times> real list \<Rightarrow> string \<times> real \<times> real list \<times> real list" where
  "argmin_first [] best = best"
| "argmin_first (c # cs) best =
     argmin_first cs (if fst (snd c) < fst (snd best) then c else best)"

definition best_model :: "fitters \<Rightarrow> series \<Rightarrow> series \<Rightarrow> exn + string \<times> real list \<times> real list" where
  "best_model lib train validation =
     (let full_horizon = length validation;
          val_actual = map snd validation;
          results = concat (map (\<lambda>(name, fn).
                       case fn train full_horizon of
                         Inl exc \<Rightarrow> []
                       | Inr (p50, std) \<Rightarrow>
                           (case wape val_actual (take (length val_actual) p50) of
                              Inl exc \<Rightarrow> []
                            | Inr w \<Rightarrow> [(name, w, p50, std)]))
                     [(''arima'', fit_arima lib), (''prophet'', fit_prophet lib),
                      (''ets'', fit_ets lib)])
      in case results of
           [] \<Rightarrow> (if train = [] then Inl IndexError
                  else Inr (''naive'', replicate full_horizon (snd (last train)),
                            replicate full_horizon (pd_std (map snd train))))
         | c # cs \<Rightarrow> (case argmin_first cs c of (name, w, p50, std) \<Rightarrow> Inr (name, p50, std)))"

text \<open>
  The refit on the full series (the inner \<^verbatim>\<open>try\<close> of \<^verbatim>\<open>run_forecast\<close>): the
  winning fitter, the last value for \<^verbatim>\<open>naive\<close>, and the series mean when the fitter
  raises.
\<close>

definition refit :: "fitters \<Rightarrow> string \<Rightarrow> series \<Rightarrow> nat \<Rightarrow> real list \<times> real list" where
  "refit lib model_name series horizon =
     (let fallback = (replicate horizon (np_mean (map snd series)),
                      replicate horizon (pd_std (map snd series)))
      in case fit_fn lib model_name of
           Some fn \<Rightarrow> (case fn series horizon of Inl exc \<Rightarrow> fallback | Inr r \<Rightarrow> r)
         | None \<Rightarrow> (if series = [] then fallback
                     else (replicate horizon (snd (last series)),
                           replicate horizon (pd_std (map snd series)))))"

fun forecast_rows ::
  "string \<Rightarrow> string \<Rightarrow> string \<Rightarrow> string \<Rightarrow> real \<Rightarrow> real \<Rightarrow> real list \<Rightarrow> real list
     \<Rightarrow> nat \<Rightarrow> int list \<Rightarrow> exn + forecast_result list" where
  "forecast_rows run_id pid lid model_name val_mape val_wape p50 p90 i [] = Inr []"
| "forecast_rows run_id pid lid model_name val_mape val_wape p50 p90 i (fdate # fdates) =
     (if i < length p50 \<and> i < length p90
      then (case forecast_rows run_id pid lid model_name val_mape val_wape p50 p90 (Suc i) fdates of
              Inl exc \<Rightarrow> Inl exc
            | Inr rows \<Rightarrow>
                Inr (\<lparr>fr_run_id = run_id, fr_product_id = pid, fr_location_id = lid,
                      fr_date = fdate,
                      fr_p50 = max 0 (p50 ! i),
                      fr_p90 = max 0 (p90 ! i),
                      fr_model_used = model_name,
                      fr_mape = py_round val_mape 2,
                      fr_wape = py_round val_wape 4\<rparr> # rows))
      else Inl IndexError)"

text \<open>One (product, location) series with at least 16 points, from the split to the rows.\<close>

definition forecast_series ::
  "fitters \<Rightarrow> string \<Rightarrow> string \<Rightarrow> string \<Rightarrow> series \<Rightarrow> nat \<Rightarrow> string
     \<Rightarrow> exn + string \<times> forecast_result list" where
  "forecast_series lib run_id pid lid series horizon frequency =
     (let train = take (length series - VALIDATION_PERIODS) series;
          validation = drop (length series - VALIDATION_PERIODS) series
      in case best_model lib train validation of
           Inl exc \<Rightarrow> Inl exc
         | Inr (model_name, p50_val, std_val) \<Rightarrow>
             (case refit lib model_name series horizon of (p50, std) \<Rightarrow>
                (case np_add p50 (np_scale 1.28 std) of
                   Inl exc \<Rightarrow> Inl exc
                 | Inr p90 \<Rightarrow>
                     (case (case fit_fn lib model_name of
                              Some fn \<Rightarrow> fn train VALIDATION_PERIODS
                            | None \<Rightarrow> Inr (replicate VALIDATION_PERIODS (np_mean (map snd train)),
                                           replicate VALIDATION_PERIODS 0)) of
                        Inl exc \<Rightarrow> Inl exc
                      | Inr (full_p50, unused) \<Rightarrow>
                          (case mape (map snd validation) (take VALIDATION_PERIODS full_p50) of
                             Inl exc \<Rightarrow> Inl exc
                           | Inr val_mape \<Rightarrow>
                               (case wape (map snd validation) (take VALIDATION_PERIODS full_p50) of
                                  Inl exc \<Rightarrow> Inl exc
                                | Inr val_wape \<Rightarrow>
                                    (case forecast_rows run_id pid lid model_name val_mape val_wape
                                            p50 p90 0
                                            (tl (date_range lib (fst (last series)) (horizon + 1)
                                                   frequency)) of
                                       Inl exc \<Rightarrow> Inl exc
                                     | Inr rows \<Rightarrow> Inr (model_name, rows))))))))"

definition forecast_pair ::
  "fitters \<Rightarrow> db \<Rightarrow> string \<Rightarrow> nat \<Rightarrow> string \<Rightarrow> product \<times> location
     \<Rightarrow> exn + ((string \<times> string) \<times> forecast_result list) list" where
  "forecast_pair lib d run_id horizon frequency =
     (\<lambda>(prod, loc).
        let rows = sort_key dh_date
                     (filter (\<lambda>r. dh_product_id r = p_product_id prod
                                   \<and> dh_location_id r = l_location_id loc)
                             (demand_history d))
        in if length rows < 16 then Inr []
           else let series = resample lib frequency (map (\<lambda>r. (dh_date r, dh_qty r)) rows)
                in if length series < 16 then Inr []
                   else case forecast_series lib run_id (p_product_id prod) (l_location_id loc)
                               series horizon frequency of
                          Inl exc \<Rightarrow> Inl exc
                        | Inr (model_name, frows) \<Rightarrow>
                            Inr [((p_sku prod @ ''_'' @ l_location_id loc, model_name), frows)])"

definition forecast_try ::
  "fitters \<Rightarrow> string \<Rightarrow> string list option \<Rightarrow> nat \<Rightarrow> string \<Rightarrow> db
     \<Rightarrow> exn + (string \<times> string) list \<times> forecast_result list" where
  "forecast_try lib run_id sku_ids horizon frequency d =
     (case collect (forecast_pair lib d run_id horizon frequency)
             (concat (map (\<lambda>prod. map (\<lambda>loc. (prod, loc)) (locations d))
                          (load_products d sku_ids))) of
        Inl exc \<Rightarrow> Inl exc
      | Inr done \<Rightarrow> Inr (map fst done, concat (map snd done)))"

text \<open>The two statements before the \<^verbatim>\<open>try\<close>: status \<^verbatim>\<open>running\<close>, then commit.\<close>

definition forecast_mark_running :: "env \<Rightarrow> session \<Rightarrow> string \<Rightarrow> forecast_run \<Rightarrow> session" where
  "forecast_mark_running e s run_id run =
     commit e (s\<lparr>current := (current s)\<lparr>forecast_runs :=
       (forecast_runs (current s))(run_id \<mapsto> run\<lparr>fo_status := ''running''\<rparr>)\<rparr>\<rparr>)"

definition forecast_stage ::
  "(db \<Rightarrow> exn + (string \<times> string) list \<times> forecast_result list) \<Rightarrow> env \<Rightarrow> session \<Rightarrow> string
     \<Rightarrow> session \<times> (exn + forecast_run)" where
  "forecast_stage body e s run_id =
     (let s0 = before_query e s
      in case forecast_runs (current s0) run_id of
           None \<Rightarrow> (s0, Inl ValueError)
         | Some run \<Rightarrow>
             let running = run\<lparr>fo_status := ''running''\<rparr>;
                 s1 = forecast_mark_running e s0 run_id run
             in case body (current s1) of
                  Inr (model_versions, rows) \<Rightarrow>
                    let finished = running\<lparr>fo_status := ''done'',
                                           fo_model_versions := model_versions,
                                           fo_completed_at := Some (utcnow e (py_ticks s1))\<rparr>;
                        s2 = s1\<lparr>current := (current s1)\<lparr>
                                  forecast_results := forecast_results (current s1) @ rows,
                                  forecast_runs := (forecast_runs (current s1))(run_id \<mapsto> finished)\<rparr>,
                                py_ticks := Suc (py_ticks s1)\<rparr>
                    in (commit e s2, Inr finished)
                | Inl exc \<Rightarrow>
                    let s2 = rollback s1;
                        failed = running\<lparr>fo_status := ''failed''\<rparr>;
                        s3 = commit e (s2\<lparr>current := (current s2)\<lparr>forecast_runs :=
                               (forecast_runs (current s2))(run_id \<mapsto> failed)\<rparr>\<rparr>)
                    in (s3, Inl exc))"

definition run_forecast ::
  "fitters \<Rightarrow> env \<Rightarrow> session \<Rightarrow> string \<Rightarrow> string list option \<Rightarrow> nat \<Rightarrow> string
     \<Rightarrow> session \<times> (exn + forecast_run)" where
  "run_forecast lib e s run_id sku_ids horizon frequency =
     forecast_stage (forecast_try lib run_id sku_ids horizon frequency) e s run_id"

section \<open>Scraper agent\<close>

record source_profile =
  price_factor_range :: "real \<times> real"
  moq_options :: "int list"
  lead_time_range :: "int \<times> int"
  confidence_range :: "real \<times> real"
  rating_range :: "real \<times> real"

definition mock_alibaba :: source_profile where
  "mock_alibaba = \<lparr>price_factor_range = (0.85, 1.05), moq_options = [100, 250, 500, 1000],
     lead_time_range = (14, 45), confidence_range = (0.75, 0.95), rating_range = (3.5, 5.0)\<rparr>"

definition SOURCE_PROFILES :: "(string \<times> source_profile) list" where
  "SOURCE_PROFILES =
     [(''mock_alibaba'', mock_alibaba),
      (''mock_globalsources'',
         \<lparr>price_factor_range = (0.90, 1.10), moq_options = [250, 500, 1000, 2000],
          lead_time_range = (21, 60), confidence_range = (0.80, 0.98), rating_range = (3.8, 5.0)\<rparr>),
      (''mock_made_in_china'',
         \<lparr>price_factor_range = (0.80, 1.00), moq_options = [500, 1000, 2000, 5000],
          lead_time_range = (30, 60), confidence_range = (0.65, 0.90), rating_range = (3.0, 4.8)\<rparr>)]"

definition SUPPLIER_NAMES :: "string list" where
  "SUPPLIER_NAMES =
     [''Shenzhen TechParts Co.'', ''GlobalEdge Manufacturing'', ''Delta Supply Group'',
      ''Apex Industrial Ltd'', ''Meridian Components'', ''Pacific Source Inc.'',
      ''Titan Trade Co.'', ''Sunrise Exports'', ''EastWest Logistics'', ''PrimeGoods Mfg'',
      ''Horizon Enterprises'', ''BlueStar Supplies'', ''NovaTrade Asia'', ''AlphaMakers'',
      ''ZenithProcure Ltd'']"

text \<open>
  The random generator of one (SKU, source) pair is seeded with \<^verbatim>\<open>hash(sku + source)\<close>,
  so within one process it yields the same draws each time.  \<open>py_hash\<close> is Python's string
  hash and \<open>rng_draws seed\<close> the draws of the generator with that seed, one record per
  simulated supplier: the unit-interval samples behind each \<^verbatim>\<open>uniform\<close>, the
  \<^verbatim>\<open>gauss\<close> sample, the indices picked by \<^verbatim>\<open>choice\<close> and the results of
  \<^verbatim>\<open>randint\<close>, in the order the code asks for them.
\<close>

record draw =
  d_factor :: real
  d_noise :: real
  d_rating :: real
  d_moq :: nat
  d_lead_time :: int
  d_confidence :: real
  d_ship :: real
  d_capacity :: int
  d_name :: nat

record rng =
  py_hash :: "string \<Rightarrow> int"
  rng_draws :: "int \<Rightarrow> draw list"

record raw_offer =
  ro_sku :: string
  ro_source :: string
  ro_supplier_name :: string
  ro_price :: real
  ro_currency :: string
  ro_moq :: int
  ro_lead_time_days :: int
  ro_shipping_cost_per_unit :: real
  ro_capacity_units :: int
  ro_rating :: real
  ro_confidence :: real

definition uniform :: "real \<times> real \<Rightarrow> real \<Rightarrow> real" where
  "uniform bounds u = fst bounds + (snd bounds - fst bounds) * u"

definition simulate_offers_for_sku :: "rng \<Rightarrow> string \<Rightarrow> string \<Rightarrow> nat \<Rightarrow> raw_offer list" where
  "simulate_offers_for_sku g sku source n_suppliers =
     (let profile = (case map_of SOURCE_PROFILES source of None \<Rightarrow> mock_alibaba | Some p \<Rightarrow> p);
          draws = take n_suppliers (rng_draws g (py_hash g (sku @ source) mod 2 ^ 32));
          base_price = 10 + of_int (py_hash g sku mod 490)
      in map (\<lambda>dr.
           let factor = uniform (price_factor_range profile) (d_factor dr);
               price = max 1 (py_round (base_price * factor * (1 + d_noise dr)) 2);
               price_percentile = (price - base_price * 0.8) / (base_price * 0.3 + 1);
               rating_adj = min 5 (uniform (rating_range profile) (d_rating dr)
                                   + price_percentile * 0.3)
           in \<lparr>ro_sku = sku,
               ro_source = source,
               ro_supplier_name = SUPPLIER_NAMES ! d_name dr,
               ro_price = price,
               ro_currency = ''USD'',
               ro_moq = moq_options profile ! d_moq dr,
               ro_lead_time_days = d_lead_time dr,
               ro_shipping_cost_per_unit = py_round (uniform (0.5, price * 0.15) (d_ship dr)) 2,
               ro_capacity_units = d_capacity dr,
               ro_rating = py_round rating_adj 1,
               ro_confidence = py_round (uniform (confidence_range profile) (d_confidence dr)) 2\<rparr>)
         draws)"

text \<open>
  \<^verbatim>\<open>_get_or_create_supplier\<close>: the query autoflushes; a new supplier is added and
  flushed at once, which also flushes every pending offer.
\<close>

definition get_or_create_supplier :: "env \<Rightarrow> session \<Rightarrow> string \<Rightarrow> real \<Rightarrow> session \<times> supplier" where
  "get_or_create_supplier e s name rating =
     (let s1 = before_query e s
      in case find (\<lambda>splr. s_name splr = name) (suppliers (current s1)) of
           Some splr \<Rightarrow> (s1, splr)
         | None \<Rightarrow>
             let splr = \<lparr>s_supplier_id = gen_uuid e (uuid_ticks s1), s_name = name,
                        s_rating = rating\<rparr>;
                 s2 = s1\<lparr>current := (current s1)\<lparr>suppliers := suppliers (current s1) @ [splr]\<rparr>,
                         uuid_ticks := Suc (uuid_ticks s1)\<rparr>
             in (flush e s2, splr))"

definition fresh_duplicate :: "string \<Rightarrow> string \<Rightarrow> int \<Rightarrow> supplier_offer \<Rightarrow> bool" where
  "fresh_duplicate supplier_id product_id ttl_cutoff off \<longleftrightarrow>
     so_supplier_id off = supplier_id \<and> so_product_id off = product_id
     \<and> (case so_captured_at off of None \<Rightarrow> False | Some t \<Rightarrow> ttl_cutoff \<le> t)"

text \<open>One candidate offer of the innermost loop; the counter is \<^verbatim>\<open>offers_collected\<close>.\<close>

definition process_raw :: "env \<Rightarrow> string \<Rightarrow> session \<times> int \<Rightarrow> raw_offer \<Rightarrow> session \<times> int" where
  "process_raw e product_id acc raw =
     (case acc of (s, offers_collected) \<Rightarrow>
        (case get_or_create_supplier e s (ro_supplier_name raw) (ro_rating raw) of (s1, splr) \<Rightarrow>
           let ttl_cutoff = utcnow e (py_ticks s1) - 3600 * scraper_ttl_hours e;
               s2 = before_query e (s1\<lparr>py_ticks := Suc (py_ticks s1)\<rparr>)
           in case find (fresh_duplicate (s_supplier_id splr) product_id ttl_cutoff)
                        (supplier_offers (current s2)) of
                Some existing \<Rightarrow> (s2, offers_collected)
              | None \<Rightarrow>
                  (s2\<lparr>pending := pending s2 @
                        [\<lparr>so_supplier_id = s_supplier_id splr,
                          so_product_id = product_id,
                          so_price = ro_price raw,
                          so_currency = ro_currency raw,
                          so_moq = ro_moq raw,
                          so_lead_time_days = Some (ro_lead_time_days raw),
                          so_capacity_units = Some (ro_capacity_units raw),
                          so_captured_at = None,
                          so_source = ro_source raw,
                          so_confidence = ro_confidence raw\<rparr>]\<rparr>,
                   offers_collected + 1)))"

definition process_source :: "env \<Rightarrow> rng \<Rightarrow> string \<Rightarrow> string \<Rightarrow> session \<times> int \<Rightarrow> string \<Rightarrow> session \<times> int" where
  "process_source e g sku product_id acc source =
     foldl (process_raw e product_id) acc (simulate_offers_for_sku g sku source 4)"

definition process_sku :: "env \<Rightarrow> rng \<Rightarrow> string list \<Rightarrow> session \<times> int \<Rightarrow> string \<Rightarrow> session \<times> int" where
  "process_sku e g sources acc sku =
     (case acc of (s, offers_collected) \<Rightarrow>
        let s1 = before_query e s
        in case find (\<lambda>p. p_sku p = sku) (products (current s1)) of
             None \<Rightarrow> (s1, offers_collected)
           | Some prd \<Rightarrow>
               foldl (process_source e g sku (p_product_id prd)) (s1, offers_collected) sources)"

text \<open>
  The \<^verbatim>\<open>try\<close> block of \<^verbatim>\<open>run_scraper_job\<close> up to \<^verbatim>\<open>db.flush()\<close>.  Nothing in it
  raises in this model; the result type leaves room for an exception so that it fits the
  runner below.
\<close>

definition scraper_try ::
  "env \<Rightarrow> rng \<Rightarrow> string list \<Rightarrow> string list \<Rightarrow> session \<Rightarrow> exn \<times> session + session \<times> int" where
  "scraper_try e g skus sources s =
     (case foldl (process_sku e g sources) (s, 0) skus of
        (s1, offers_collected) \<Rightarrow> Inr (flush e s1, offers_collected))"

text \<open>The two statements before the \<^verbatim>\<open>try\<close>: status \<^verbatim>\<open>running\<close>, then commit.\<close>

definition scraper_mark_running :: "env \<Rightarrow> session \<Rightarrow> string \<Rightarrow> scraper_job \<Rightarrow> session" where
  "scraper_mark_running e s job_id job =
     commit e (s\<lparr>current := (current s)\<lparr>scraper_jobs :=
       (scraper_jobs (current s))(job_id \<mapsto> job\<lparr>sj_status := ''running''\<rparr>)\<rparr>\<rparr>)"

definition scraper_stage ::
  "(session \<Rightarrow> exn \<times> session + session \<times> int) \<Rightarrow> env \<Rightarrow> session \<Rightarrow> string
     \<Rightarrow> session \<times> (exn + scraper_job)" where
  "scraper_stage body e s job_id =
     (let s0 = before_query e s
      in case scraper_jobs (current s0) job_id of
           None \<Rightarrow> (s0, Inl ValueError)
         | Some job \<Rightarrow>
             let running = job\<lparr>sj_status := ''running''\<rparr>;
                 s1 = scraper_mark_running e s0 job_id job
             in case body s1 of
                  Inr (s2, offers_collected) \<Rightarrow>
                    let finished = running\<lparr>sj_status := ''done'',
                                           sj_offers_collected := offers_collected,
                                           sj_completed_at := Some (utcnow e (py_ticks s2))\<rparr>;
                        s3 = s2\<lparr>current := (current s2)\<lparr>scraper_jobs :=
                                    (scraper_jobs (current s2))(job_id \<mapsto> finished)\<rparr>,
                                py_ticks := Suc (py_ticks s2)\<rparr>
                    in (commit e s3, Inr finished)
                | Inl (exc, sx) \<Rightarrow>
                    let s2 = rollback sx;
                        failed = running\<lparr>sj_status := ''failed'', sj_error := Some exc\<rparr>;
                        s3 = commit e (s2\<lparr>current := (current s2)\<lparr>scraper_jobs :=
                               (scraper_jobs (current s2))(job_id \<mapsto> failed)\<rparr>\<rparr>)
                    in (s3, Inl exc))"

definition run_scraper_job ::
  "rng \<Rightarrow> env \<Rightarrow> session \<Rightarrow> string \<Rightarrow> string list \<Rightarrow> string list option
     \<Rightarrow> session \<times> (exn + scraper_job)" where
  "run_scraper_job g e s job_id skus sources =
     scraper_stage
       (scraper_try e g skus (case sources of None \<Rightarrow> map fst SOURCE_PROFILES | Some srcs \<Rightarrow> srcs))
       e s job_id"

section \<open>Concrete scenarios\<close>

text \<open>
  Small databases on which the runners are evaluated below.  In \<open>fractional_db\<close> the
  forecast demand of the only product is 10.04 units and the solver orders exactly that
  from the only supplier, at a unit price of 5.  In \<open>long_lead_db\<close> the cheapest offer has
  a lead time of 280 days and the forecast demand is 0.004 units per week.
\<close>

definition demo_env :: env where
  "demo_env = \<lparr>autoflush = True, utcnow = (\<lambda>n. 1000 + int n), dbnow = (\<lambda>n. 1000 + int n),
     gen_uuid = (\<lambda>n. replicate n CHR ''u''), scraper_ttl_hours = 24, norm_ppf = (\<lambda>p. 1.645)\<rparr>"




definition long_lead_db :: db where
  "long_lead_db = \<lparr>products = [\<lparr>p_product_id = ''P1'', p_sku = ''SKU-0001''\<rparr>],
     locations = [\<lparr>l_location_id = ''L1''\<rparr>],
     suppliers = [\<lparr>s_supplier_id = ''S1'', s_name = ''Delta Supply Group'', s_rating = 4\<rparr>],
     supplier_offers = [\<lparr>so_supplier_id = ''S1'', so_product_id = ''P1'', so_price = 5,
        so_currency = ''USD'', so_moq = 1, so_lead_time_days = Some 280,
        so_capacity_units = Some 10000, so_captured_at = Some 0, so_source = ''erp'',
        so_confidence = 0.9\<rparr>],
     demand_history = [],
     cost_parameters = [\<lparr>cp_product_id = ''P1'', cp_location_id = ''L1'',
        cp_holding_cost_per_unit_period = 1, cp_setup_cost = 500, cp_stockout_penalty = None,
        cp_service_level = 0.95\<rparr>],
     forecast_results = [\<lparr>fr_run_id = ''F1'', fr_product_id = ''P1'', fr_location_id = ''L1'',
        fr_date = 7, fr_p50 = 0.004, fr_p90 = 0.004, fr_model_used = ''ets'', fr_mape = 0,
        fr_wape = 0\<rparr>],
     inventory_policy_results = [],
     optimisation_allocations = [],
     scraper_jobs = Map.empty,
     forecast_runs = Map.empty,
     inventory_policy_runs = [''I1'' \<mapsto> \<lparr>ip_status = ''pending'', ip_completed_at = None\<rparr>],
     optimisation_runs = Map.empty\<rparr>"

definition long_lead_session :: session where
  "long_lead_session = \<lparr>committed = long_lead_db, current = long_lead_db, pending = [], py_ticks = 0, db_ticks = 0,
     uuid_ticks = 0\<rparr>"



text \<open>
  \<open>ets_db\<close> holds 16 weeks of demand 100 for one product at one location; of the fitters
  only exponential smoothing succeeds, with forecast 100 and residuals 1 and -1.
\<close>

definition ets_fitters :: fitters where
  "ets_fitters = \<lparr>resample = (\<lambda>frequency points. points),
     arima_lib = (\<lambda>train horizon. Inl FitError),
     prophet_lib = (\<lambda>train horizon. Inl FitError),
     ets_lib = (\<lambda>train horizon. Inr (Inr (replicate horizon 100, [1, - 1]))),
     ses_lib = (\<lambda>train horizon. Inl FitError),
     date_range = (\<lambda>start periods frequency. map (\<lambda>k. start + 7 * int k) [0..<periods])\<rparr>"

definition ets_series :: series where
  "ets_series = map (\<lambda>k. (7 * int k, 100)) [0..<16]"

definition ets_db :: db where
  "ets_db = \<lparr>products = [\<lparr>p_product_id = ''P1'', p_sku = ''SKU-0001''\<rparr>],
     locations = [\<lparr>l_location_id = ''L1''\<rparr>],
     suppliers = [],
     supplier_offers = [],
     demand_history = map (\<lambda>(date, qty). \<lparr>dh_product_id = ''P1'', dh_location_id = ''L1'',
                                dh_date = date, dh_qty = qty\<rparr>) ets_series,
     cost_parameters = [],
     forecast_results = [],
     inventory_policy_results = [],
     optimisation_allocations = [],
     scraper_jobs = Map.empty,
     forecast_runs = [''F1'' \<mapsto> \<lparr>fo_status = ''pending'', fo_model_versions = [],
        fo_completed_at = None\<rparr>],
     inventory_policy_runs = Map.empty,
     optimisation_runs = Map.empty\<rparr>"

definition ets_session :: session where
  "ets_session = \<lparr>committed = ets_db, current = ets_db, pending = [], py_ticks = 0, db_ticks = 0,
     uuid_ticks = 0\<rparr>"

section \<open>Properties of the numeric primitives\<close>

lemma round_half_even_error: "\<bar>of_int (round_half_even x) - x\<bar> \<le> 1 / 2"
proof -
  have "of_int \<lfloor>x\<rfloor> \<le> x" "x < of_int \<lfloor>x\<rfloor> + 1"
    by linarith+
  then show ?thesis
    by (auto simp: round_half_even_def Let_def)
qed

lemma round_half_even_unique:
  assumes "of_int a - 1 / 2 < x" and "x < of_int a + 1 / 2"
  shows "round_half_even x = a"
proof -
  have e: "\<bar>of_int (round_half_even x) - x\<bar> \<le> 1 / 2"
    by (rule round_half_even_error)
  have "\<bar>(of_int (round_half_even x) :: real) - of_int a\<bar> < 1"
    using e assms by linarith
  then have "\<bar>round_half_even x - a\<bar> < 1"
    by (metis of_int_abs of_int_diff of_int_less_1_iff)
  then show ?thesis by linarith
qed

lemma round_half_even_of_int [simp]: "round_half_even (of_int a) = a"
  by (rule round_half_even_unique) simp_all

lemma py_round_error: "\<bar>py_round x n - x\<bar> \<le> 1 / (2 * 10 ^ n)"
proof -
  have "\<bar>py_round x n - x\<bar> = \<bar>of_int (round_half_even (x * 10 ^ n)) - x * 10 ^ n\<bar> / 10 ^ n"
    by (simp add: py_round_def field_simps flip: abs_mult)
  also have "\<dots> \<le> (1 / 2) / 10 ^ n"
    by (intro divide_right_mono round_half_even_error) simp
  finally show ?thesis by simp
qed

lemma py_round_unique:
  assumes "of_int a - 1 / 2 < x * 10 ^ n" and "x * 10 ^ n < of_int a + 1 / 2"
  shows "py_round x n = of_int a / 10 ^ n"
  by (simp add: py_round_def round_half_even_unique [OF assms])

lemma py_round_exact:
  assumes "x * 10 ^ n = of_int a"
  shows "py_round x n = x"
proof -
  have "py_round x n = of_int a / 10 ^ n"
    by (simp add: py_round_def assms)
  also have "\<dots> = x"
    using assms [symmetric] by simp
  finally show ?thesis .
qed

lemma py_round_zero [simp]: "py_round 0 n = 0"
  by (rule py_round_exact [where a = 0]) simp


section \<open>Inventory formulas\<close>

lemma sqrt_400000: "py_round (sqrt 400000) 1 = 6325 / 10"
proof -
  have lo: "(63245 / 10 :: real) < sqrt 400000 * 10 ^ 1"
  proof -
    have "(63245 / 100 :: real) < sqrt 400000"
      by (rule real_less_rsqrt) (simp add: power2_eq_square)
    then show ?thesis by simp
  qed
  have hi: "sqrt 400000 * 10 ^ 1 < (63255 / 10 :: real)"
  proof -
    have "sqrt 400000 < (63255 / 100 :: real)"
      by (rule real_less_lsqrt) (simp_all add: power2_eq_square)
    then show ?thesis by simp
  qed
  have "py_round (sqrt 400000) 1 = of_int 6325 / 10 ^ 1"
    by (rule py_round_unique) (use lo hi in simp_all)
  then show ?thesis by simp
qed

lemma compute_eoq_main:
  assumes "0 < D" "0 < H" "0 \<le> S"
  shows "compute_eoq D S H = Inr (max 1 (py_round (sqrt (2 * D * S / H)) 1))"
proof -
  have "0 \<le> 2 * D * S / H"
    using assms by (intro divide_nonneg_pos mult_nonneg_nonneg) simp_all
  then have "\<not> 2 * D * S / H < 0" by simp
  moreover have "\<not> (H \<le> 0 \<or> D \<le> 0)" using assms by simp
  ultimately show ?thesis
    unfolding compute_eoq_def Let_def by (simp only: if_False)
qed

lemma compute_eoq_fallback:
  "H \<le> 0 \<or> D \<le> 0 \<Longrightarrow> compute_eoq D S H = Inr (max 1 D)"
  unfolding compute_eoq_def by (simp only: if_True)

lemma compute_eoq_example: "compute_eoq 10000 100 5 = Inr 632.5"
proof -
  have "compute_eoq 10000 100 5 = Inr (max 1 (py_round (sqrt (2 * 10000 * 100 / 5)) 1))"
    by (rule compute_eoq_main) simp_all
  also have "2 * 10000 * 100 / 5 = (400000 :: real)" by simp
  finally show ?thesis
    by (simp only: sqrt_400000) simp
qed

text \<open>
  Claim C6.  For a positive annual demand and holding cost (and a setup cost that is not
  negative, where the square root is defined) \<^verbatim>\<open>compute_eoq\<close> returns
  \<open>max 1 (sqrt (2 D S / H))\<close> rounded to one decimal; when \<open>H \<le> 0\<close> or \<open>D \<le> 0\<close> it
  falls back to \<open>max 1 D\<close>.  \<open>D = 10000\<close>, \<open>S = 100\<close>, \<open>H = 5\<close> gives 632.5 and \<open>D = 0\<close>
  gives 1.
\<close>

theorem compute_eoq_spec:
  "(0 < D \<and> 0 < H \<and> 0 \<le> S \<longrightarrow> compute_eoq D S H = Inr (max 1 (py_round (sqrt (2 * D * S / H)) 1)))
   \<and> (H \<le> 0 \<or> D \<le> 0 \<longrightarrow> compute_eoq D S H = Inr (max 1 D))
   \<and> compute_eoq 10000 100 5 = Inr 632.5
   \<and> compute_eoq 0 S H = Inr 1"
  using compute_eoq_main [of D H S] compute_eoq_fallback [of H D S] compute_eoq_example
    compute_eoq_fallback [of H 0 S]
  by simp

theorem compute_eoq_spec_witness:
  "compute_eoq 2 1 1 = Inr 2 \<and> compute_eoq 7 3 0 = Inr 7"
proof -
  have "py_round 2 1 = 2"
    by (rule py_round_exact [where a = 20]) simp
  then show ?thesis
    using compute_eoq_spec [of 2 1 1] compute_eoq_spec [of 7 0 3] by simp
qed

lemma compute_safety_stock_pos:
  assumes "0 < L"
  shows "compute_safety_stock ppf sigma L SL sigma_L =
         max 0 (py_round (ppf SL * sqrt (sigma\<^sup>2 * L + sigma\<^sup>2 * sigma_L\<^sup>2)) 1)"
proof -
  have "\<not> L \<le> 0" using assms by simp
  then show ?thesis
    unfolding compute_safety_stock_def Let_def by (simp only: if_False)
qed

lemma compute_safety_stock_deterministic:
  assumes "0 < L" and "0 \<le> sigma"
  shows "compute_safety_stock ppf sigma L SL 0 = max 0 (py_round (ppf SL * sigma * sqrt L) 1)"
proof -
  have "sqrt (sigma\<^sup>2 * L + sigma\<^sup>2 * 0\<^sup>2) = sigma * sqrt L"
    using assms by (simp add: real_sqrt_mult)
  then show ?thesis
    by (simp only: compute_safety_stock_pos [OF assms(1)] mult.assoc)
qed

lemma compute_safety_stock_example:
  assumes "\<bar>ppf 0.95 - 1.645\<bar> \<le> 0.0005"
  shows "\<bar>compute_safety_stock ppf 50 4 0.95 0 - 164.5\<bar> \<le> 0.1"
proof -
  define x where "x = ppf 0.95 * 50 * sqrt 4"
  have "x = ppf 0.95 * 100"
    by (simp add: x_def)
  then have x: "\<bar>x - 164.5\<bar> \<le> 0.05"
    using assms unfolding abs_le_iff by simp
  have r: "\<bar>py_round x 1 - x\<bar> \<le> 0.05"
    using py_round_error [of x 1] by simp
  have b: "164.4 \<le> py_round x 1 \<and> py_round x 1 \<le> 164.6"
    using x r unfolding abs_le_iff by auto
  have "compute_safety_stock ppf 50 4 0.95 0 = max 0 (py_round x 1)"
    unfolding x_def by (rule compute_safety_stock_deterministic) simp_all
  also have "\<dots> = py_round x 1"
    using b by simp
  finally show ?thesis
    using b unfolding abs_le_iff by auto
qed

text \<open>
  Claim C5.  For a positive lead time \<^verbatim>\<open>compute_safety_stock\<close> returns
  \<open>max 0 (round (z * sqrt (\<sigma>\<^sup>2 L + \<sigma>\<^sup>2 \<sigma>\<^sub>L\<^sup>2)) 1)\<close> with \<open>z\<close> the normal quantile of the service
  level; for a deterministic lead time and a demand standard deviation \<open>\<sigma> \<ge> 0\<close> this is
  \<open>z \<sigma> sqrt L\<close>; and \<open>\<sigma> = 50\<close>, \<open>L = 4\<close>, service level 0.95 give 164.5 within 0.1, for
  any quantile function whose value at 0.95 is 1.645 to three decimals (the normal
  quantile is 1.64485...).
\<close>

theorem compute_safety_stock_spec:
  "(0 < L \<longrightarrow> compute_safety_stock ppf sigma L SL sigma_L =
        max 0 (py_round (ppf SL * sqrt (sigma\<^sup>2 * L + sigma\<^sup>2 * sigma_L\<^sup>2)) 1))
   \<and> (0 < L \<and> 0 \<le> sigma \<longrightarrow> compute_safety_stock ppf sigma L SL 0 =
        max 0 (py_round (ppf SL * sigma * sqrt L) 1))
   \<and> (\<bar>ppf 0.95 - 1.645\<bar> \<le> 0.0005 \<longrightarrow>
        \<bar>compute_safety_stock ppf 50 4 0.95 0 - 164.5\<bar> \<le> 0.1)"
  using compute_safety_stock_pos [of L ppf sigma SL sigma_L]
    compute_safety_stock_deterministic [of L sigma ppf SL]
    compute_safety_stock_example [of ppf]
  by blast

theorem compute_safety_stock_spec_witness:
  "(0::real) < 4 \<and> \<bar>(\<lambda>_::real. 1.645::real) 0.95 - 1.645\<bar> \<le> 0.0005
   \<and> \<bar>compute_safety_stock (\<lambda>_. 1.645) 50 4 0.95 0 - 164.5\<bar> \<le> 0.1"
  using compute_safety_stock_spec [where L = 4 and ppf = "\<lambda>_. 1.645" and sigma = 50
      and SL = "0.95" and sigma_L = 0, THEN conjunct2, THEN conjunct2]
  by simp

lemma sum_list_map_nth: "sum_list (map f xs) = (\<Sum>i<length xs. f (xs ! i))"
  by (simp add: sum_list_sum_nth atLeast0LessThan)

lemma wape_zero: "sum_list (map abs actual) = 0 \<Longrightarrow> wape actual forecast = Inr 0"
  by (simp add: wape_def)

lemma wape_equal_length:
  assumes "length actual = length forecast"
  shows "wape actual forecast =
         Inr (if (\<Sum>i<length actual. \<bar>actual ! i\<bar>) = 0 then 0
              else (\<Sum>i<length actual. \<bar>actual ! i - forecast ! i\<bar>) / (\<Sum>i<length actual. \<bar>actual ! i\<bar>))"
proof -
  have d: "np_sub actual forecast = Inr (map (\<lambda>(x, y). x - y) (zip actual forecast))"
    using assms by (simp add: np_sub_def)
  have s: "sum_list (map abs (map (\<lambda>(x, y). x - y) (zip actual forecast)))
           = (\<Sum>i<length actual. \<bar>actual ! i - forecast ! i\<bar>)"
    using assms by (simp add: sum_list_sum_nth atLeast0LessThan)
  show ?thesis
    unfolding wape_def Let_def d sum.case s by (simp add: sum_list_map_nth)
qed

text \<open>
  Claim C8.  On arrays of equal length \<^verbatim>\<open>wape\<close> is the sum of the absolute errors
  divided by the sum of the absolute actuals, and it is 0 whenever that denominator is 0,
  as for an all-zero actual series.
\<close>

theorem wape_spec:
  "(length actual = length forecast \<longrightarrow>
      wape actual forecast =
        Inr (if (\<Sum>i<length actual. \<bar>actual ! i\<bar>) = 0 then 0
             else (\<Sum>i<length actual. \<bar>actual ! i - forecast ! i\<bar>)
                  / (\<Sum>i<length actual. \<bar>actual ! i\<bar>)))
   \<and> ((\<Sum>i<length actual. \<bar>actual ! i\<bar>) = 0 \<longrightarrow> wape actual forecast = Inr 0)
   \<and> ((\<forall>a \<in> set actual. a = 0) \<longrightarrow> wape actual forecast = Inr 0)"
proof -
  have "(\<forall>a \<in> set actual. a = 0) \<longrightarrow> sum_list (map abs actual) = 0"
    by (induction actual) auto
  then show ?thesis
    using wape_equal_length [of actual forecast] wape_zero [of actual forecast]
    by (simp add: sum_list_map_nth)
qed

theorem wape_spec_witness:
  "wape [10, 30] [12, 27] = Inr (5 / 40) \<and> wape [0, 0] [4, 5] = Inr 0"
  using wape_spec [of "[10, 30]" "[12, 27]"] wape_spec [of "[0, 0]" "[4, 5]"]
  by (simp add: lessThan_Suc numeral_2_eq_2)


section \<open>Sessions and stage runners\<close>

lemma flush_nil [simp]: "pending s = [] \<Longrightarrow> flush e s = s"
  by (simp add: flush_def stamp_def)





lemma flush_tables [simp]:
  "products (current (flush e s)) = products (current s)"
  "locations (current (flush e s)) = locations (current s)"
  "suppliers (current (flush e s)) = suppliers (current s)"
  "demand_history (current (flush e s)) = demand_history (current s)"
  "cost_parameters (current (flush e s)) = cost_parameters (current s)"
  "forecast_results (current (flush e s)) = forecast_results (current s)"
  "inventory_policy_results (current (flush e s)) = inventory_policy_results (current s)"
  "optimisation_allocations (current (flush e s)) = optimisation_allocations (current s)"
  "scraper_jobs (current (flush e s)) = scraper_jobs (current s)"
  "forecast_runs (current (flush e s)) = forecast_runs (current s)"
  "inventory_policy_runs (current (flush e s)) = inventory_policy_runs (current s)"
  "optimisation_runs (current (flush e s)) = optimisation_runs (current s)"
  "committed (flush e s) = committed s"
  "pending (flush e s) = []"
  "py_ticks (flush e s) = py_ticks s"
  "uuid_ticks (flush e s) = uuid_ticks s"
  by (simp_all add: flush_def)

lemma before_query_tables [simp]:
  "products (current (before_query e s)) = products (current s)"
  "locations (current (before_query e s)) = locations (current s)"
  "suppliers (current (before_query e s)) = suppliers (current s)"
  "demand_history (current (before_query e s)) = demand_history (current s)"
  "cost_parameters (current (before_query e s)) = cost_parameters (current s)"
  "forecast_results (current (before_query e s)) = forecast_results (current s)"
  "inventory_policy_results (current (before_query e s)) = inventory_policy_results (current s)"
  "optimisation_allocations (current (before_query e s)) = optimisation_allocations (current s)"
  "scraper_jobs (current (before_query e s)) = scraper_jobs (current s)"
  "forecast_runs (current (before_query e s)) = forecast_runs (current s)"
  "inventory_policy_runs (current (before_query e s)) = inventory_policy_runs (current s)"
  "optimisation_runs (current (before_query e s)) = optimisation_runs (current s)"
  "committed (before_query e s) = committed s"
  "py_ticks (before_query e s) = py_ticks s"
  "uuid_ticks (before_query e s) = uuid_ticks s"
  by (simp_all add: before_query_def)

lemma commit_tables [simp]:
  "committed (commit e s) = current (flush e s)"
  "current (commit e s) = current (flush e s)"
  "pending (commit e s) = []"
  "py_ticks (commit e s) = py_ticks s"
  "uuid_ticks (commit e s) = uuid_ticks s"
  by (simp_all add: commit_def Let_def)

lemma rollback_tables [simp]:
  "committed (rollback s) = committed s"
  "current (rollback s) = committed s"
  "pending (rollback s) = []"
  "py_ticks (rollback s) = py_ticks s"
  by (simp_all add: rollback_def)

lemma flush_update_current:
  "pending (s\<lparr>current := d\<rparr>) = pending s"
  "db_ticks (s\<lparr>current := d\<rparr>) = db_ticks s"
  by simp_all





lemma abs_chain:
  fixes t a b x y :: real
  assumes "\<bar>t - a\<bar> \<le> x" and "\<bar>a - b\<bar> \<le> y"
  shows "\<bar>t - b\<bar> \<le> x + y"
  using assms by linarith





lemma py_round_nonneg:
  assumes "0 \<le> x"
  shows "0 \<le> py_round x n"
proof -
  have "0 \<le> x * 10 ^ n" using assms by simp
  moreover have "\<bar>of_int (round_half_even (x * 10 ^ n)) - x * 10 ^ n\<bar> \<le> 1 / 2"
    by (rule round_half_even_error)
  ultimately have "- 1 < (of_int (round_half_even (x * 10 ^ n)) :: real)"
    by linarith
  then have "0 \<le> round_half_even (x * 10 ^ n)"
    by linarith
  then show ?thesis
    by (simp add: py_round_def)
qed

lemma py_round_of_int: "py_round (of_int k) n = of_int k"
  by (rule py_round_exact [where a = "k * 10 ^ n"]) simp

lemma np_mean_nonneg:
  assumes "\<forall>x \<in> set xs. 0 \<le> x"
  shows "0 \<le> np_mean xs"
  unfolding np_mean_def using assms by (intro divide_nonneg_nonneg sum_list_nonneg) simp_all

lemma compute_safety_stock_nonneg: "0 \<le> compute_safety_stock ppf sd L sl lsd"
  by (simp add: compute_safety_stock_def Let_def)

lemma rop_bound:
  assumes "0 \<le> m" and "0 \<le> L" and "0 \<le> ss"
  shows "\<bar>compute_rop m L ss - (py_round m 2 * L + ss)\<bar> \<le> 0.05 + 0.005 * L"
proof -
  have "0 \<le> m * L + ss"
    using assms by simp
  then have eq: "compute_rop m L ss = py_round (m * L + ss) 1"
    using py_round_nonneg [of "m * L + ss" 1] by (simp add: compute_rop_def Let_def)
  have b1: "\<bar>py_round (m * L + ss) 1 - (m * L + ss)\<bar> \<le> 0.05"
    using py_round_error [of "m * L + ss" 1] by simp
  have b2: "\<bar>(m * L + ss) - (py_round m 2 * L + ss)\<bar> \<le> 0.005 * L"
  proof -
    have "(m * L + ss) - (py_round m 2 * L + ss) = - ((py_round m 2 - m) * L)"
      by (simp add: algebra_simps)
    then have "\<bar>(m * L + ss) - (py_round m 2 * L + ss)\<bar> = \<bar>py_round m 2 - m\<bar> * \<bar>L\<bar>"
      by (simp only: abs_minus abs_mult)
    also have "\<dots> = \<bar>py_round m 2 - m\<bar> * L"
      using assms(2) by simp
    also have "\<dots> \<le> 0.005 * L"
      using py_round_error [of m 2] assms(2) by (intro mult_right_mono) simp_all
    finally show ?thesis .
  qed
  show ?thesis
    unfolding eq using b1 b2 by (rule abs_chain)
qed

lemma collect_Inr:
  assumes "collect f xs = Inr ys" and "y \<in> set ys"
  shows "\<exists>x \<in> set xs. \<exists>zs. f x = Inr zs \<and> y \<in> set zs"
  using assms
proof (induction xs arbitrary: ys)
  case Nil
  then show ?case by simp
next
  case (Cons x xs)
  then show ?case
    by (auto split: sum.splits)
qed

lemma cheapest_in_set: "cheapest offers = Some off \<Longrightarrow> off \<in> set offers"
proof -
  assume a: "cheapest offers = Some off"
  then obtain rest where "sort_key so_price offers = off # rest"
    by (auto simp: cheapest_def split: list.splits)
  then have "off \<in> set (sort_key so_price offers)"
    by simp
  then show ?thesis by simp
qed

lemma policy_for_row:
  assumes p: "policy_for e d rid frid ppy cp = Inr rows" and r: "r \<in> set rows"
    and f: "\<forall>f \<in> set (forecast_results d). 0 \<le> fr_p50 f"
    and l: "\<forall>off \<in> set (supplier_offers d). \<forall>days. so_lead_time_days off = Some days \<longrightarrow> 0 \<le> days"
  shows "\<bar>ir_rop r - (ir_avg_demand r * (ir_lead_time_days r / 7) + ir_safety_stock r)\<bar>
           \<le> 0.05 + 0.005 * (ir_lead_time_days r / 7)"
proof -
  define latest where "latest = cheapest (filter (\<lambda>off. so_product_id off = cp_product_id cp)
                                          (supplier_offers d))"
  define lead where "lead = (case latest of None \<Rightarrow> Inr 4
       | Some off \<Rightarrow> (case so_lead_time_days off of None \<Rightarrow> Inl TypeError
                        | Some days \<Rightarrow> Inr (real_of_int days / 7)))"
  define fcs where "fcs = sort_key fr_date (filter (\<lambda>f. fr_run_id f = frid
       \<and> fr_product_id f = cp_product_id cp \<and> fr_location_id f = cp_location_id cp)
         (forecast_results d))"
  note pf = p [unfolded policy_for_def Let_def, folded latest_def, folded lead_def, folded fcs_def]
  obtain L where L: "lead = Inr L"
    using pf by (cases lead) auto
  have Lk: "\<exists>k::int. 0 \<le> k \<and> L * 7 = of_int k"
  proof (cases latest)
    case None
    with L have "L = 4" by (simp add: lead_def)
    then show ?thesis by (intro exI [of _ 28]) simp
  next
    case (Some off)
    with L obtain days where d: "so_lead_time_days off = Some days" "L = of_int days / 7"
      by (auto simp: lead_def split: option.splits)
    have "off \<in> set (supplier_offers d)"
      using cheapest_in_set [OF Some [unfolded latest_def]] by simp
    with l d(1) have "0 \<le> days" by blast
    with d(2) show ?thesis by (intro exI [of _ days]) simp
  qed
  then obtain k :: int where k: "0 \<le> k" "L * 7 = of_int k" by blast
  have L0: "0 \<le> L" using k by linarith
  have lt: "py_round (L * 7) 1 / 7 = L"
    unfolding k(2) py_round_of_int using k(2) by simp
  have ne: "fcs \<noteq> []"
    using pf r unfolding L by (auto split: if_splits)
  define m where "m = np_mean (map fr_p50 fcs)"
  define sd where "sd = np_std (map fr_p50 fcs)"
  have m0: "0 \<le> m"
    unfolding m_def using f by (intro np_mean_nonneg) (auto simp: fcs_def)
  have eqs: "ir_rop r = compute_rop m L (compute_safety_stock (norm_ppf e) sd L (cp_service_level cp) 0)"
    "ir_avg_demand r = py_round m 2"
    "ir_safety_stock r = compute_safety_stock (norm_ppf e) sd L (cp_service_level cp) 0"
    "ir_lead_time_days r = py_round (L * 7) 1"
    using pf r ne unfolding L m_def sd_def by (auto split: sum.splits)
  have e4: "ir_lead_time_days r / 7 = L"
    unfolding eqs(4) by (rule lt)
  show ?thesis
    unfolding e4 unfolding eqs(1-3)
    by (rule rop_bound [OF m0 L0 compute_safety_stock_nonneg])
qed

lemmas py_round_eval = py_round_def round_half_even_def Let_def

lemma long_lead_run:
  "inventory_policy_results (committed (fst (run_inventory_policy demo_env long_lead_session ''I1'' ''F1'' 52)))
   = [\<lparr>ir_run_id = ''I1'', ir_product_id = ''P1'', ir_location_id = ''L1'', ir_eoq = 2,
        ir_rop = 0.2, ir_safety_stock = 0, ir_avg_demand = 0, ir_demand_std = 0,
        ir_lead_time_days = 280, ir_service_level = 0.95, ir_annual_holding_cost = 52,
        ir_annual_ordering_cost = 52\<rparr>]"
    "snd (run_inventory_policy demo_env long_lead_session ''I1'' ''F1'' 52)
   = Inr \<lparr>ip_status = ''done'', ip_completed_at = Some 1000\<rparr>"
  by (simp_all add: run_inventory_policy_def inventory_stage_def inventory_mark_running_def
      inventory_try_def policy_for_def
      cheapest_def compute_eoq_def compute_safety_stock_def compute_rop_def
      annual_inventory_cost_def np_mean_def np_std_def
      before_query_def commit_def long_lead_session_def long_lead_db_def demo_env_def py_round_eval)

lemma lead_flush:
  "so_lead_time_days ` set (supplier_offers (current (flush e s)))
     \<subseteq> so_lead_time_days ` (set (supplier_offers (current s)) \<union> set (pending s))"
  by (fastforce simp: flush_def stamp_def in_set_enumerate_eq)

lemma lead_before_query:
  "so_lead_time_days ` (set (supplier_offers (current (before_query e s))) \<union> set (pending (before_query e s)))
     \<subseteq> so_lead_time_days ` (set (supplier_offers (current s)) \<union> set (pending s))"
  using lead_flush [of e s] by (auto simp: before_query_def)

lemma inventory_stage_success:
  assumes "inventory_stage body e s run_id = (s', Inr run)"
  shows "\<exists>d rows. body d = Inr rows
           \<and> forecast_results d = forecast_results (current s)
           \<and> so_lead_time_days ` set (supplier_offers d)
                \<subseteq> so_lead_time_days ` (set (supplier_offers (current s)) \<union> set (pending s))
           \<and> inventory_policy_results (committed s') = inventory_policy_results (current s) @ rows"
proof (cases "inventory_policy_runs (current (before_query e s)) run_id")
  case None
  with assms show ?thesis
    by (simp add: inventory_stage_def Let_def)
next
  case (Some run0)
  define s0 where "s0 = (before_query e s)\<lparr>current := (current (before_query e s))
      \<lparr>inventory_policy_runs := (inventory_policy_runs (current (before_query e s)))
          (run_id \<mapsto> run0\<lparr>ip_status := ''running''\<rparr>)\<rparr>\<rparr>"
  define s1 where "s1 = inventory_mark_running e (before_query e s) run_id run0"
  have s10: "s1 = commit e s0"
    by (simp add: s1_def s0_def inventory_mark_running_def)
  have t: "inventory_policy_results (current s1) = inventory_policy_results (current s)"
    "forecast_results (current s1) = forecast_results (current s)"
    by (simp_all add: s10 s0_def)
  have "so_lead_time_days ` set (supplier_offers (current s1))
          \<subseteq> so_lead_time_days ` (set (supplier_offers (current s0)) \<union> set (pending s0))"
    unfolding s10 commit_tables by (rule lead_flush)
  also have "\<dots> = so_lead_time_days ` (set (supplier_offers (current (before_query e s)))
                        \<union> set (pending (before_query e s)))"
    by (simp add: s0_def)
  also have "\<dots> \<subseteq> so_lead_time_days ` (set (supplier_offers (current s)) \<union> set (pending s))"
    by (rule lead_before_query)
  finally have l: "so_lead_time_days ` set (supplier_offers (current s1))
          \<subseteq> so_lead_time_days ` (set (supplier_offers (current s)) \<union> set (pending s))" .
  note st = assms [unfolded inventory_stage_def Let_def Some option.case, folded s1_def]
  show ?thesis
  proof (cases "body (current s1)")
    case (Inl exc)
    from st [unfolded Inl sum.case] show ?thesis
      by simp
  next
    case (Inr rows)
    from st [unfolded Inr sum.case]
    have "inventory_policy_results (committed s') = inventory_policy_results (current s1) @ rows"
      by auto
    with Inr t l show ?thesis by auto
  qed
qed

text \<open>
  Claim C1, as the code has it.  The persisted \<open>avg_demand\<close> is the mean rounded to two
  decimals while the reorder point is computed from the unrounded mean, so for forecasts
  that are not negative and lead times that are not negative every row persisted by a
  successful \<^verbatim>\<open>run_inventory_policy\<close> satisfies
  \<open>|rop - (avg_demand * L + safety_stock)| \<le> 0.05 + 0.005 * L\<close> with \<open>L = lead_time_days / 7\<close>;
  this is at most 0.1 when the lead time is at most 70 days.
\<close>

theorem reorder_point_bound:
  assumes "run_inventory_policy e s run_id forecast_run_id periods_per_year = (s', Inr run)"
    and "\<forall>f \<in> set (forecast_results (current s)). 0 \<le> fr_p50 f"
    and "\<forall>off \<in> set (supplier_offers (current s)) \<union> set (pending s).
           \<forall>days. so_lead_time_days off = Some days \<longrightarrow> 0 \<le> days"
  shows "\<exists>rows. inventory_policy_results (committed s') = inventory_policy_results (current s) @ rows
           \<and> (\<forall>r \<in> set rows.
                 \<bar>ir_rop r - (ir_avg_demand r * (ir_lead_time_days r / 7) + ir_safety_stock r)\<bar>
                    \<le> 0.05 + 0.005 * (ir_lead_time_days r / 7)
                 \<and> (ir_lead_time_days r \<le> 70 \<longrightarrow>
                      \<bar>ir_rop r - (ir_avg_demand r * (ir_lead_time_days r / 7) + ir_safety_stock r)\<bar>
                        \<le> 0.1))"
proof -
  from inventory_stage_success [OF assms(1) [unfolded run_inventory_policy_def]]
  obtain d rows where b: "inventory_try e run_id forecast_run_id periods_per_year d = Inr rows"
    and f: "forecast_results d = forecast_results (current s)"
    and l: "so_lead_time_days ` set (supplier_offers d)
                \<subseteq> so_lead_time_days ` (set (supplier_offers (current s)) \<union> set (pending s))"
    and c: "inventory_policy_results (committed s') = inventory_policy_results (current s) @ rows"
    by blast
  have l': "\<forall>off \<in> set (supplier_offers d). \<forall>days. so_lead_time_days off = Some days \<longrightarrow> 0 \<le> days"
  proof (intro ballI allI impI)
    fix off days
    assume "off \<in> set (supplier_offers d)" and d: "so_lead_time_days off = Some days"
    with l obtain off' where "off' \<in> set (supplier_offers (current s)) \<union> set (pending s)"
      "so_lead_time_days off' = Some days"
      by (metis (no_types, lifting) image_iff subsetD)
    with assms(3) show "0 \<le> days" by blast
  qed
  have f': "\<forall>x \<in> set (forecast_results d). 0 \<le> fr_p50 x"
    using assms(2) f by simp
  have "\<bar>ir_rop r - (ir_avg_demand r * (ir_lead_time_days r / 7) + ir_safety_stock r)\<bar>
           \<le> 0.05 + 0.005 * (ir_lead_time_days r / 7)
        \<and> (ir_lead_time_days r \<le> 70 \<longrightarrow>
             \<bar>ir_rop r - (ir_avg_demand r * (ir_lead_time_days r / 7) + ir_safety_stock r)\<bar> \<le> 0.1)"
    if "r \<in> set rows" for r
  proof -
    from collect_Inr [OF b [unfolded inventory_try_def] that]
    obtain cp zs where "policy_for e d run_id forecast_run_id periods_per_year cp = Inr zs" "r \<in> set zs"
      by blast
    from policy_for_row [OF this f' l']
    have "\<bar>ir_rop r - (ir_avg_demand r * (ir_lead_time_days r / 7) + ir_safety_stock r)\<bar>
           \<le> 0.05 + 0.005 * (ir_lead_time_days r / 7)" .
    then show ?thesis by auto
  qed
  with c show ?thesis by blast
qed

theorem reorder_point_bound_witness:
  "\<exists>rows. inventory_policy_results (committed (fst (run_inventory_policy demo_env
              long_lead_session ''I1'' ''F1'' 52)))
            = inventory_policy_results (current long_lead_session) @ rows
         \<and> (\<forall>r \<in> set rows.
               \<bar>ir_rop r - (ir_avg_demand r * (ir_lead_time_days r / 7) + ir_safety_stock r)\<bar>
                  \<le> 0.05 + 0.005 * (ir_lead_time_days r / 7)
               \<and> (ir_lead_time_days r \<le> 70 \<longrightarrow>
                    \<bar>ir_rop r - (ir_avg_demand r * (ir_lead_time_days r / 7) + ir_safety_stock r)\<bar>
                      \<le> 0.1))"
proof -
  have r: "run_inventory_policy demo_env long_lead_session ''I1'' ''F1'' 52
        = (fst (run_inventory_policy demo_env long_lead_session ''I1'' ''F1'' 52),
           Inr \<lparr>ip_status = ''done'', ip_completed_at = Some 1000\<rparr>)"
    using long_lead_run(2) by (simp add: prod_eq_iff)
  have f: "\<forall>f \<in> set (forecast_results (current long_lead_session)). 0 \<le> fr_p50 f"
    by (simp add: long_lead_session_def long_lead_db_def)
  have l: "\<forall>off \<in> set (supplier_offers (current long_lead_session)) \<union> set (pending long_lead_session).
           \<forall>days. so_lead_time_days off = Some days \<longrightarrow> 0 \<le> days"
    by (simp add: long_lead_session_def long_lead_db_def)
  from reorder_point_bound [OF r f l] show ?thesis .
qed

text \<open>
  With the tolerance 0.1 for every row the claim fails: a lead time of 280 days and a
  forecast of 0.004 units per week give \<open>rop = 0.2\<close>, \<open>avg_demand = 0\<close> and
  \<open>safety_stock = 0\<close>.
\<close>

theorem reorder_point_bound_counterexample:
  "inventory_policy_results (committed (fst (run_inventory_policy demo_env long_lead_session
       ''I1'' ''F1'' 52)))
   = [\<lparr>ir_run_id = ''I1'', ir_product_id = ''P1'', ir_location_id = ''L1'', ir_eoq = 2,
        ir_rop = 0.2, ir_safety_stock = 0, ir_avg_demand = 0, ir_demand_std = 0,
        ir_lead_time_days = 280, ir_service_level = 0.95, ir_annual_holding_cost = 52,
        ir_annual_ordering_cost = 52\<rparr>]
   \<and> \<not> \<bar>0.2 - (0 * (280 / 7) + 0)\<bar> \<le> (0.1 :: real)"
  using long_lead_run(1) by simp


section \<open>Failure of a stage\<close>











section \<open>Forecast quantiles\<close>

lemma np_std_nonneg: "0 \<le> np_std xs"
  unfolding np_std_def np_mean_def
  by (intro real_sqrt_ge_zero divide_nonneg_nonneg sum_list_nonneg) auto

lemma pd_std_nonneg: "0 \<le> pd_std xs"
proof (cases xs)
  case Nil
  then show ?thesis by (simp add: pd_std_def)
next
  case (Cons x ys)
  then have "0 \<le> real (length xs) - 1" by simp
  then show ?thesis
    unfolding pd_std_def
    by (intro real_sqrt_ge_zero divide_nonneg_nonneg sum_list_nonneg) auto
qed

lemma fit_arima_nonneg:
  assumes "fit_arima lib train h = Inr (p50, std)"
  shows "length p50 = length std" "\<forall>x \<in> set p50. 0 \<le> x" "\<forall>x \<in> set std. 0 \<le> x"
  using assms by (auto simp: fit_arima_def split: sum.splits)

lemma fit_prophet_nonneg:
  assumes "fit_prophet lib train h = Inr (p50, std)"
  shows "length p50 = length std" "\<forall>x \<in> set p50. 0 \<le> x" "\<forall>x \<in> set std. 0 \<le> x"
  using assms by (auto simp: fit_prophet_def split: sum.splits)

lemma fit_ets_nonneg:
  assumes "fit_ets lib train h = Inr (p50, std)"
  shows "\<forall>x \<in> set p50. 0 \<le> x" "\<forall>x \<in> set std. 0 \<le> x"
  using assms by (auto simp: fit_ets_def np_std_nonneg split: sum.splits)

lemma fit_fn_nonneg:
  assumes "fit_fn lib model_name = Some fn" and "fn series h = Inr (p50, std)"
  shows "\<forall>x \<in> set p50. 0 \<le> x" "\<forall>x \<in> set std. 0 \<le> x"
  using assms fit_arima_nonneg(2,3) [of lib series h p50 std]
    fit_prophet_nonneg(2,3) [of lib series h p50 std] fit_ets_nonneg [of lib series h p50 std]
  by (auto simp: fit_fn_def split: if_splits)

lemma refit_std_nonneg:
  assumes "refit lib model_name series h = (p50, std)"
  shows "\<forall>x \<in> set std. 0 \<le> x"
proof (cases "fit_fn lib model_name")
  case None
  with assms show ?thesis
    by (auto simp: refit_def Let_def pd_std_nonneg split: if_splits)
next
  case (Some fn)
  show ?thesis
  proof (cases "fn series h")
    case (Inl exc)
    with Some assms show ?thesis
      by (auto simp: refit_def Let_def pd_std_nonneg)
  next
    case (Inr r)
    with Some assms have "fn series h = Inr (p50, std)"
      by (simp add: refit_def Let_def)
    from fit_fn_nonneg(2) [OF Some this] show ?thesis .
  qed
qed

lemma np_add_ge:
  assumes "np_add xs (np_scale 1.28 std) = Inr ys" and "\<forall>x \<in> set std. 0 \<le> x"
    and "i < length xs" and "i < length ys"
  shows "xs ! i \<le> ys ! i"
proof -
  have nn: "0 \<le> 1.28 * std ! j" if "j < length std" for j
    using assms(2) that by simp
  consider (eq) "length xs = length std"
    | (one) "length xs \<noteq> length std" "length std = 1"
    | (bc) "length xs \<noteq> length std" "length std \<noteq> 1" "length xs = 1"
    using assms(1) by (auto simp: np_add_def np_scale_def split: if_splits)
  then show ?thesis
  proof cases
    case eq
    with assms(1) have "ys = map (\<lambda>(x, y). x + y) (zip xs (np_scale 1.28 std))"
      by (simp add: np_add_def np_scale_def)
    with eq assms(3) nn [of i] show ?thesis by (simp add: np_scale_def)
  next
    case one
    then obtain s where s: "std = [s]" by (cases std) auto
    with one assms(1) have "ys = map (\<lambda>x. x + 1.28 * s) xs"
      by (simp add: np_add_def np_scale_def)
    with assms(3) nn [of 0] s show ?thesis by simp
  next
    case bc
    with assms(1) have "ys = map (\<lambda>y. hd xs + y) (np_scale 1.28 std)"
      by (simp add: np_add_def np_scale_def)
    moreover from bc assms(3) have "i = 0" "hd xs = xs ! 0"
      by (cases xs; simp)+
    ultimately show ?thesis
      using assms(4) nn [of 0] by (simp add: np_scale_def)
  qed
qed

lemma forecast_rows_nth:
  assumes "forecast_rows run_id pid lid model_name val_mape val_wape p50 p90 i0 dates = Inr rows"
  shows "length rows = length dates
         \<and> (\<forall>k < length rows. i0 + k < length p50 \<and> i0 + k < length p90
               \<and> fr_p50 (rows ! k) = max 0 (p50 ! (i0 + k))
               \<and> fr_p90 (rows ! k) = max 0 (p90 ! (i0 + k))
               \<and> fr_run_id (rows ! k) = run_id)"
  using assms
proof (induction dates arbitrary: i0 rows)
  case Nil
  then show ?case by simp
next
  case (Cons fdate fdates)
  from Cons.prems obtain rest where
    ok: "i0 < length p50" "i0 < length p90"
    and rest: "forecast_rows run_id pid lid model_name val_mape val_wape p50 p90 (Suc i0) fdates = Inr rest"
    and rows: "rows = \<lparr>fr_run_id = run_id, fr_product_id = pid, fr_location_id = lid,
                      fr_date = fdate, fr_p50 = max 0 (p50 ! i0), fr_p90 = max 0 (p90 ! i0),
                      fr_model_used = model_name, fr_mape = py_round val_mape 2,
                      fr_wape = py_round val_wape 4\<rparr> # rest"
    by (auto split: if_splits sum.splits)
  from Cons.IH [OF rest] have ih: "length rest = length fdates"
    "\<forall>k < length rest. Suc i0 + k < length p50 \<and> Suc i0 + k < length p90
               \<and> fr_p50 (rest ! k) = max 0 (p50 ! (Suc i0 + k))
               \<and> fr_p90 (rest ! k) = max 0 (p90 ! (Suc i0 + k))
               \<and> fr_run_id (rest ! k) = run_id"
    by auto
  show ?case
  proof (intro conjI allI impI)
    show "length rows = length (fdate # fdates)"
      by (simp add: rows ih(1))
  next
    fix k assume "k < length rows"
    then show "i0 + k < length p50" "i0 + k < length p90"
      "fr_p50 (rows ! k) = max 0 (p50 ! (i0 + k))"
      "fr_p90 (rows ! k) = max 0 (p90 ! (i0 + k))"
      "fr_run_id (rows ! k) = run_id"
      using ok ih(2) by (cases k; simp add: rows)+
  qed
qed

lemma forecast_series_rows:
  assumes "forecast_series lib run_id pid lid series horizon frequency = Inr (model_name, rows)"
  shows "\<exists>p50 std p90 dates val_mape val_wape.
           refit lib model_name series horizon = (p50, std)
           \<and> np_add p50 (np_scale 1.28 std) = Inr p90
           \<and> forecast_rows run_id pid lid model_name val_mape val_wape p50 p90 0 dates = Inr rows"
  using assms
  by (auto simp: forecast_series_def Let_def split: sum.splits prod.splits)

lemma forecast_series_ordered:
  assumes "forecast_series lib run_id pid lid series horizon frequency = Inr (model_name, rows)"
    and "r \<in> set rows"
  shows "0 \<le> fr_p50 r \<and> fr_p50 r \<le> fr_p90 r"
proof -
  from forecast_series_rows [OF assms(1)] obtain p50 std p90 dates val_mape val_wape
    where rf: "refit lib model_name series horizon = (p50, std)"
      and ad: "np_add p50 (np_scale 1.28 std) = Inr p90"
      and fr: "forecast_rows run_id pid lid model_name val_mape val_wape p50 p90 0 dates = Inr rows"
    by blast
  from assms(2) obtain k where k: "k < length rows" "r = rows ! k"
    by (auto simp: in_set_conv_nth)
  from forecast_rows_nth [OF fr] k(1)
  have kk: "k < length p50" "k < length p90" "fr_p50 (rows ! k) = max 0 (p50 ! k)"
    "fr_p90 (rows ! k) = max 0 (p90 ! k)"
    by auto
  from np_add_ge [OF ad refit_std_nonneg [OF rf] kk(1,2)] have "p50 ! k \<le> p90 ! k" .
  then show ?thesis
    unfolding k(2) kk(3,4) by simp
qed

lemma forecast_pair_ordered:
  assumes "forecast_pair lib d run_id horizon frequency pl = Inr items"
    and "item \<in> set items" and "r \<in> set (snd item)"
  shows "0 \<le> fr_p50 r \<and> fr_p50 r \<le> fr_p90 r"
proof -
  obtain prd loc where pl: "pl = (prd, loc)" by (cases pl)
  from assms obtain series model_name frows where
    "forecast_series lib run_id (p_product_id prd) (l_location_id loc) series horizon frequency
       = Inr (model_name, frows)" "r \<in> set frows"
    unfolding pl forecast_pair_def Let_def
    by (auto split: if_splits sum.splits)
  then show ?thesis by (rule forecast_series_ordered)
qed

lemma forecast_try_ordered:
  assumes "forecast_try lib run_id sku_ids horizon frequency d = Inr (versions, rows)"
    and "r \<in> set rows"
  shows "0 \<le> fr_p50 r \<and> fr_p50 r \<le> fr_p90 r"
proof -
  from assms obtain items where
    c: "collect (forecast_pair lib d run_id horizon frequency)
          (concat (map (\<lambda>prd. map (\<lambda>loc. (prd, loc)) (locations d)) (load_products d sku_ids)))
        = Inr items"
    and r: "r \<in> set (concat (map snd items))"
    by (auto simp: forecast_try_def split: sum.splits)
  from r obtain item where i: "item \<in> set items" "r \<in> set (snd item)"
    by auto
  from collect_Inr [OF c i(1)] obtain pl zs where
    "forecast_pair lib d run_id horizon frequency pl = Inr zs" "item \<in> set zs"
    by blast
  from forecast_pair_ordered [OF this i(2)] show ?thesis .
qed

lemma forecast_stage_success:
  assumes "forecast_stage body e s run_id = (s', Inr run)"
  shows "\<exists>d versions rows. body d = Inr (versions, rows)
           \<and> forecast_results (committed s') = forecast_results (current s) @ rows"
proof (cases "forecast_runs (current (before_query e s)) run_id")
  case None
  with assms show ?thesis
    by (simp add: forecast_stage_def Let_def)
next
  case (Some run0)
  define s1 where "s1 = forecast_mark_running e (before_query e s) run_id run0"
  have t: "forecast_results (current s1) = forecast_results (current s)"
    by (simp add: s1_def forecast_mark_running_def)
  note st = assms [unfolded forecast_stage_def Let_def Some option.case, folded s1_def]
  show ?thesis
  proof (cases "body (current s1)")
    case (Inl exc)
    from st [unfolded Inl sum.case] show ?thesis
      by simp
  next
    case (Inr res)
    obtain versions rows where res: "res = (versions, rows)"
      by (cases res) auto
    from st [unfolded Inr res sum.case prod.case]
    have "forecast_results (committed s') = forecast_results (current s1) @ rows"
      by auto
    with Inr res t show ?thesis by auto
  qed
qed

text \<open>
  Claim C3.  Every ForecastResult row persisted by a successful \<^verbatim>\<open>run_forecast\<close>
  satisfies \<open>0 \<le> p50 \<le> p90\<close>, whichever candidate wins and also on the naive and the
  refit-exception paths: every path yields standard deviations that are not negative, and
  both quantiles are clipped at 0.
\<close>

theorem forecast_quantiles_ordered:
  assumes "run_forecast lib e s run_id sku_ids horizon frequency = (s', Inr run)"
  shows "\<exists>rows. forecast_results (committed s') = forecast_results (current s) @ rows
           \<and> (\<forall>r \<in> set rows. 0 \<le> fr_p50 r \<and> fr_p50 r \<le> fr_p90 r)"
proof -
  from forecast_stage_success [OF assms [unfolded run_forecast_def]]
  obtain d versions rows
    where b: "forecast_try lib run_id sku_ids horizon frequency d = Inr (versions, rows)"
      and c: "forecast_results (committed s') = forecast_results (current s) @ rows"
    by blast
  from forecast_try_ordered [OF b] c show ?thesis by blast
qed

lemma ets_series_eq:
  "ets_series = [(0, 100), (7, 100), (14, 100), (21, 100), (28, 100), (35, 100), (42, 100),
     (49, 100), (56, 100), (63, 100), (70, 100), (77, 100), (84, 100), (91, 100), (98, 100),
     (105, 100)]"
  by (simp add: ets_series_def upt_rec)

lemma ets_fit:
  "fit_ets ets_fitters train h = Inr (replicate h 100, replicate h 1)"
  "fit_fn ets_fitters ''ets'' = Some (fit_ets ets_fitters)"
  by (simp_all add: fit_ets_def fit_fn_def ets_fitters_def np_std_def np_mean_def)

lemma ets_best:
  "best_model ets_fitters (take 8 ets_series) (drop 8 ets_series)
     = Inr (''ets'', replicate 8 100, replicate 8 1)"
  by (simp add: best_model_def ets_fit fit_arima_def fit_prophet_def wape_def np_sub_def
      ets_series_eq Let_def, simp add: ets_fitters_def numeral_eq_Suc)

lemma ets_forecast_series:
  "forecast_series ets_fitters ''F1'' ''P1'' ''L1'' ets_series 2 ''W''
   = Inr (''ets'',
       [\<lparr>fr_run_id = ''F1'', fr_product_id = ''P1'', fr_location_id = ''L1'', fr_date = 112,
          fr_p50 = 100, fr_p90 = 101.28, fr_model_used = ''ets'', fr_mape = 0, fr_wape = 0\<rparr>,
        \<lparr>fr_run_id = ''F1'', fr_product_id = ''P1'', fr_location_id = ''L1'', fr_date = 119,
          fr_p50 = 100, fr_p90 = 101.28, fr_model_used = ''ets'', fr_mape = 0, fr_wape = 0\<rparr>])"
proof -
  have l: "length ets_series - VALIDATION_PERIODS = 8"
    by (simp add: ets_series_eq VALIDATION_PERIODS_def)
  have d: "tl (date_range ets_fitters (fst (last ets_series)) (2 + 1) ''W'') = [112, 119]"
    by (simp add: ets_series_eq ets_fitters_def upt_rec)
  have m: "mape (map snd (drop 8 ets_series)) (take VALIDATION_PERIODS (replicate VALIDATION_PERIODS 100)) = Inr 0"
    "wape (map snd (drop 8 ets_series)) (take VALIDATION_PERIODS (replicate VALIDATION_PERIODS 100)) = Inr 0"
    by (simp_all add: mape_def wape_def np_sub_def np_mean_def ets_series_eq VALIDATION_PERIODS_def
        numeral_eq_Suc)
  have r: "refit ets_fitters ''ets'' ets_series 2 = ([100, 100], [1, 1])"
    by (simp add: refit_def ets_fit numeral_eq_Suc)
  have a: "np_add [100, 100] (np_scale 1.28 [1, 1]) = Inr [101.28, 101.28]"
    by (simp add: np_add_def np_scale_def)
  show ?thesis
    unfolding forecast_series_def Let_def l ets_best sum.case prod.case r a ets_fit option.case
      m d
    by (simp add: numeral_eq_Suc)
qed

lemma ets_pair:
  assumes "demand_history d = demand_history ets_db"
  shows "forecast_pair ets_fitters d ''F1'' 2 ''W''
           (\<lparr>p_product_id = ''P1'', p_sku = ''SKU-0001''\<rparr>, \<lparr>l_location_id = ''L1''\<rparr>)
         = Inr [((''SKU-0001_L1'', ''ets''),
             [\<lparr>fr_run_id = ''F1'', fr_product_id = ''P1'', fr_location_id = ''L1'', fr_date = 112,
                fr_p50 = 100, fr_p90 = 101.28, fr_model_used = ''ets'', fr_mape = 0, fr_wape = 0\<rparr>,
              \<lparr>fr_run_id = ''F1'', fr_product_id = ''P1'', fr_location_id = ''L1'', fr_date = 119,
                fr_p50 = 100, fr_p90 = 101.28, fr_model_used = ''ets'', fr_mape = 0,
                fr_wape = 0\<rparr>])]"
proof -
  define rows where "rows = sort_key dh_date
      (filter (\<lambda>r. dh_product_id r = ''P1'' \<and> dh_location_id r = ''L1'') (demand_history d))"
  have h: "map (\<lambda>r. (dh_date r, dh_qty r)) rows = ets_series" "length rows = 16"
    unfolding rows_def assms by (simp_all add: ets_db_def ets_series_eq)
  have r: "resample ets_fitters ''W'' ets_series = ets_series"
    by (simp add: ets_fitters_def)
  have l: "length ets_series = 16"
    by (simp add: ets_series_eq)
  show ?thesis
    unfolding forecast_pair_def prod.case Let_def
    by (simp add: rows_def [symmetric] h r l ets_forecast_series)
qed

lemma ets_try:
  assumes "demand_history d = demand_history ets_db" and "products d = products ets_db"
    and "locations d = locations ets_db"
  shows "forecast_try ets_fitters ''F1'' None 2 ''W'' d
         = Inr ([(''SKU-0001_L1'', ''ets'')],
             [\<lparr>fr_run_id = ''F1'', fr_product_id = ''P1'', fr_location_id = ''L1'', fr_date = 112,
                fr_p50 = 100, fr_p90 = 101.28, fr_model_used = ''ets'', fr_mape = 0, fr_wape = 0\<rparr>,
              \<lparr>fr_run_id = ''F1'', fr_product_id = ''P1'', fr_location_id = ''L1'', fr_date = 119,
                fr_p50 = 100, fr_p90 = 101.28, fr_model_used = ''ets'', fr_mape = 0,
                fr_wape = 0\<rparr>])"
  unfolding forecast_try_def load_products_def assms(2,3)
  by (simp add: ets_db_def ets_pair [OF assms(1)])

lemma ets_run:
  "forecast_results (committed (fst (run_forecast ets_fitters demo_env ets_session ''F1'' None 2 ''W'')))
   = [\<lparr>fr_run_id = ''F1'', fr_product_id = ''P1'', fr_location_id = ''L1'', fr_date = 112,
          fr_p50 = 100, fr_p90 = 101.28, fr_model_used = ''ets'', fr_mape = 0, fr_wape = 0\<rparr>,
        \<lparr>fr_run_id = ''F1'', fr_product_id = ''P1'', fr_location_id = ''L1'', fr_date = 119,
          fr_p50 = 100, fr_p90 = 101.28, fr_model_used = ''ets'', fr_mape = 0, fr_wape = 0\<rparr>]"
  "snd (run_forecast ets_fitters demo_env ets_session ''F1'' None 2 ''W'')
   = Inr \<lparr>fo_status = ''done'', fo_model_versions = [(''SKU-0001_L1'', ''ets'')],
           fo_completed_at = Some 1000\<rparr>"
proof -
  define s1 where "s1 = forecast_mark_running demo_env (before_query demo_env ets_session) ''F1''
                 \<lparr>fo_status = ''pending'', fo_model_versions = [], fo_completed_at = None\<rparr>"
  have f: "forecast_runs (current (before_query demo_env ets_session)) ''F1''
           = Some \<lparr>fo_status = ''pending'', fo_model_versions = [], fo_completed_at = None\<rparr>"
    by (simp add: ets_session_def ets_db_def)
  have d: "demand_history (current s1) = demand_history ets_db"
    "products (current s1) = products ets_db" "locations (current s1) = locations ets_db"
    "forecast_results (current s1) = []" "py_ticks s1 = 0" "pending s1 = []"
    by (simp_all add: s1_def forecast_mark_running_def ets_session_def, simp_all add: ets_db_def)
  note t = ets_try [OF d(1,2,3)]
  have r: "run_forecast ets_fitters demo_env ets_session ''F1'' None 2 ''W''
      = (commit demo_env (s1\<lparr>current := (current s1)\<lparr>
            forecast_results := forecast_results (current s1) @
              [\<lparr>fr_run_id = ''F1'', fr_product_id = ''P1'', fr_location_id = ''L1'', fr_date = 112,
                 fr_p50 = 100, fr_p90 = 101.28, fr_model_used = ''ets'', fr_mape = 0, fr_wape = 0\<rparr>,
               \<lparr>fr_run_id = ''F1'', fr_product_id = ''P1'', fr_location_id = ''L1'', fr_date = 119,
                 fr_p50 = 100, fr_p90 = 101.28, fr_model_used = ''ets'', fr_mape = 0,
                 fr_wape = 0\<rparr>],
            forecast_runs := (forecast_runs (current s1))(''F1'' \<mapsto>
              \<lparr>fo_status = ''pending'', fo_model_versions = [], fo_completed_at = None\<rparr>
                \<lparr>fo_status := ''running''\<rparr>
                \<lparr>fo_status := ''done'', fo_model_versions := [(''SKU-0001_L1'', ''ets'')],
                 fo_completed_at := Some (utcnow demo_env (py_ticks s1))\<rparr>)\<rparr>,
          py_ticks := Suc (py_ticks s1)\<rparr>),
         Inr (\<lparr>fo_status = ''pending'', fo_model_versions = [], fo_completed_at = None\<rparr>
                \<lparr>fo_status := ''running''\<rparr>
                \<lparr>fo_status := ''done'', fo_model_versions := [(''SKU-0001_L1'', ''ets'')],
                 fo_completed_at := Some (utcnow demo_env (py_ticks s1))\<rparr>))"
    unfolding run_forecast_def forecast_stage_def Let_def f option.case
    unfolding s1_def [symmetric] t sum.case prod.case ..
  show "forecast_results (committed (fst (run_forecast ets_fitters demo_env ets_session ''F1'' None 2 ''W'')))
   = [\<lparr>fr_run_id = ''F1'', fr_product_id = ''P1'', fr_location_id = ''L1'', fr_date = 112,
          fr_p50 = 100, fr_p90 = 101.28, fr_model_used = ''ets'', fr_mape = 0, fr_wape = 0\<rparr>,
        \<lparr>fr_run_id = ''F1'', fr_product_id = ''P1'', fr_location_id = ''L1'', fr_date = 119,
          fr_p50 = 100, fr_p90 = 101.28, fr_model_used = ''ets'', fr_mape = 0, fr_wape = 0\<rparr>]"
    unfolding r by (simp add: d)
  show "snd (run_forecast ets_fitters demo_env ets_session ''F1'' None 2 ''W'')
   = Inr \<lparr>fo_status = ''done'', fo_model_versions = [(''SKU-0001_L1'', ''ets'')],
           fo_completed_at = Some 1000\<rparr>"
    unfolding r by (simp add: d demo_env_def)
qed

text \<open>
  Claim C4, as the code has it.  When the refit of the winning model on the full series
  succeeds with per-step means \<open>mean\<close> and standard deviations \<open>sigma\<close>, the row of future
  period \<open>i\<close> has \<open>p50 = max 0 (mean[i])\<close> and \<open>p90 = p50 + 1.28 * sigma[i]\<close>: the factor in the
  code is 1.28, not 1.2816.
\<close>

theorem forecast_quantile_formula:
  assumes "forecast_series lib run_id pid lid series horizon frequency = Inr (model_name, rows)"
    and "fit_fn lib model_name = Some fn" and "fn series horizon = Inr (mean, sigma)"
    and "length mean = length sigma" and "i < length rows"
  shows "fr_p50 (rows ! i) = max 0 (mean ! i)
         \<and> fr_p90 (rows ! i) = fr_p50 (rows ! i) + 1.28 * sigma ! i"
proof -
  from forecast_series_rows [OF assms(1)] obtain p50 std p90 dates val_mape val_wape
    where rf: "refit lib model_name series horizon = (p50, std)"
      and ad: "np_add p50 (np_scale 1.28 std) = Inr p90"
      and fr: "forecast_rows run_id pid lid model_name val_mape val_wape p50 p90 0 dates = Inr rows"
    by blast
  have ms: "p50 = mean" "std = sigma"
    using rf assms(2,3) by (simp_all add: refit_def Let_def)
  from forecast_rows_nth [OF fr] assms(5)
  have kk: "i < length mean" "i < length p90" "fr_p50 (rows ! i) = max 0 (mean ! i)"
    "fr_p90 (rows ! i) = max 0 (p90 ! i)"
    unfolding ms by auto
  have "p90 = map (\<lambda>(x, y). x + y) (zip mean (np_scale 1.28 sigma))"
    using ad assms(4) unfolding ms by (simp add: np_add_def np_scale_def)
  then have p: "p90 ! i = mean ! i + 1.28 * sigma ! i"
    using kk(1) assms(4) by (simp add: np_scale_def)
  have "0 \<le> mean ! i" "0 \<le> sigma ! i"
    using fit_fn_nonneg [OF assms(2,3)] kk(1) assms(4) by simp_all
  then show ?thesis
    unfolding kk(3,4) p by simp
qed

theorem forecast_quantile_formula_witness:
  "fr_p50 ([\<lparr>fr_run_id = ''F1'', fr_product_id = ''P1'', fr_location_id = ''L1'', fr_date = 112,
          fr_p50 = 100, fr_p90 = 101.28, fr_model_used = ''ets'', fr_mape = 0, fr_wape = 0\<rparr>,
        \<lparr>fr_run_id = ''F1'', fr_product_id = ''P1'', fr_location_id = ''L1'', fr_date = 119,
          fr_p50 = 100, fr_p90 = 101.28, fr_model_used = ''ets'', fr_mape = 0, fr_wape = 0\<rparr>] ! 1)
     = max 0 ([100, 100] ! 1)
   \<and> fr_p90 ([\<lparr>fr_run_id = ''F1'', fr_product_id = ''P1'', fr_location_id = ''L1'', fr_date = 112,
          fr_p50 = 100, fr_p90 = 101.28, fr_model_used = ''ets'', fr_mape = 0, fr_wape = 0\<rparr>,
        \<lparr>fr_run_id = ''F1'', fr_product_id = ''P1'', fr_location_id = ''L1'', fr_date = 119,
          fr_p50 = 100, fr_p90 = 101.28, fr_model_used = ''ets'', fr_mape = 0, fr_wape = 0\<rparr>] ! 1)
     = fr_p50 ([\<lparr>fr_run_id = ''F1'', fr_product_id = ''P1'', fr_location_id = ''L1'', fr_date = 112,
          fr_p50 = 100, fr_p90 = 101.28, fr_model_used = ''ets'', fr_mape = 0, fr_wape = 0\<rparr>,
        \<lparr>fr_run_id = ''F1'', fr_product_id = ''P1'', fr_location_id = ''L1'', fr_date = 119,
          fr_p50 = 100, fr_p90 = 101.28, fr_model_used = ''ets'', fr_mape = 0, fr_wape = 0\<rparr>] ! 1)
       + 1.28 * [1, 1] ! 1"
proof -
  have f: "fit_ets ets_fitters ets_series 2 = Inr ([100, 100], [1, 1])"
    by (simp add: ets_fit numeral_eq_Suc)
  show ?thesis
    by (rule forecast_quantile_formula [OF ets_forecast_series ets_fit(2) f]) simp_all
qed

text \<open>
  With the factor 1.2816 the claim fails: exponential smoothing with mean 100 and residual
  standard deviation 1 is persisted with \<open>p90 = 101.28\<close>.
\<close>

theorem forecast_quantile_formula_counterexample:
  "forecast_results (committed (fst (run_forecast ets_fitters demo_env ets_session ''F1'' None 2 ''W'')))
   = [\<lparr>fr_run_id = ''F1'', fr_product_id = ''P1'', fr_location_id = ''L1'', fr_date = 112,
          fr_p50 = 100, fr_p90 = 101.28, fr_model_used = ''ets'', fr_mape = 0, fr_wape = 0\<rparr>,
        \<lparr>fr_run_id = ''F1'', fr_product_id = ''P1'', fr_location_id = ''L1'', fr_date = 119,
          fr_p50 = 100, fr_p90 = 101.28, fr_model_used = ''ets'', fr_mape = 0, fr_wape = 0\<rparr>]
   \<and> fit_ets ets_fitters ets_series 2 = Inr ([100, 100], [1, 1])
   \<and> \<not> (101.28 = max 0 100 + 1.2816 * (1 :: real))"
  using ets_run(1) by (simp add: ets_fit numeral_eq_Suc)

theorem forecast_quantiles_ordered_witness:
  "\<exists>rows. forecast_results (committed (fst (run_forecast ets_fitters demo_env ets_session ''F1''
              None 2 ''W'')))
            = forecast_results (current ets_session) @ rows
         \<and> (\<forall>r \<in> set rows. 0 \<le> fr_p50 r \<and> fr_p50 r \<le> fr_p90 r)"
proof -
  have "run_forecast ets_fitters demo_env ets_session ''F1'' None 2 ''W''
        = (fst (run_forecast ets_fitters demo_env ets_session ''F1'' None 2 ''W''),
           Inr \<lparr>fo_status = ''done'', fo_model_versions = [(''SKU-0001_L1'', ''ets'')],
                 fo_completed_at = Some 1000\<rparr>)"
    using ets_run(2) by (simp add: prod_eq_iff)
  from forecast_quantiles_ordered [OF this] show ?thesis .
qed

end
